theory Spec2Isabelle
  imports Complex_Main "HOL-Library.Log_Nat"
begin

section \<open>Floating point (Python's \<open>float\<close>, the \<open>Float\<close> columns)\<close>

text \<open>
  A Python \<open>float\<close> is an IEEE 754 binary64 number: a finite value, one of the two
  infinities, or a not-a-number. A finite value is modelled by the rational it denotes.
  Not every rational is such a value; the results of \<open>to_double\<close> are, and the facts proved
  below hold for every value of the type. The sign of a zero is not kept: a division by
  a zero raises in Python (\<open>py_truediv\<close> below), and every comparison treats both zeros
  alike.
\<close>

datatype double = Finite rat | PosInf | NegInf | NaN

text \<open>Rounding to the nearest integer, a tie to the even one.\<close>

definition round_half_even :: "rat \<Rightarrow> int" where
  "round_half_even x =
     (let f = \<lfloor>x\<rfloor>; d = x - of_int f
      in if d < 1 / 2 then f else if 1 / 2 < d then f + 1 else if even f then f else f + 1)"

definition pow2 :: "int \<Rightarrow> rat" where
  "pow2 e = (if 0 \<le> e then 2 ^ nat e else 1 / 2 ^ nat (- e))"

text \<open>
  \<open>floor_log2 q\<close> is the exponent \<open>k\<close> with \<open>2 ^ k \<le> q < 2 ^ (k + 1)\<close>, for positive \<open>q\<close>
  (\<open>bitlen n\<close> is the number of binary digits of \<open>n\<close>).
\<close>

definition floor_log2 :: "rat \<Rightarrow> int" where
  "floor_log2 q = (if 1 \<le> q then bitlen \<lfloor>q\<rfloor> - 1 else - bitlen (\<lceil>1 / q\<rceil> - 1))"

text \<open>
  \<open>to_double q\<close> is the result of an operation whose exact value is \<open>q\<close>: the nearest number
  with a mantissa of 53 bits, a tie to the even mantissa; below \<open>2 ^ - 1022\<close> the numbers
  are the multiples of \<open>2 ^ - 1074\<close> (gradual underflow), and a rounded value of \<open>2 ^ 1024\<close>
  or more is the infinity of its sign.
\<close>

definition to_double :: "rat \<Rightarrow> double" where
  "to_double q =
     (if q = 0 then Finite 0
      else let e = max (floor_log2 \<bar>q\<bar> - 52) (- 1074);
               m = round_half_even (\<bar>q\<bar> / pow2 e);
               v = of_int m * pow2 e
           in if pow2 1024 \<le> v then (if 0 < q then PosInf else NegInf)
              else Finite (if 0 < q then v else - v))"

text \<open>
  The operations \<open>-\<close>, \<open>+\<close>, \<open>*\<close>, \<open>/\<close>, \<open><\<close> and \<open>\<le>\<close> of IEEE 754: on finite values the exact
  result rounded by \<open>to_double\<close>; the clauses are tried in their order.
\<close>

fun fneg :: "double \<Rightarrow> double" where
  "fneg (Finite a) = Finite (- a)"
| "fneg PosInf = NegInf"
| "fneg NegInf = PosInf"
| "fneg NaN = NaN"

fun fadd :: "double \<Rightarrow> double \<Rightarrow> double" where
  "fadd (Finite a) (Finite b) = to_double (a + b)"
| "fadd NaN b = NaN"
| "fadd a NaN = NaN"
| "fadd PosInf NegInf = NaN"
| "fadd NegInf PosInf = NaN"
| "fadd PosInf b = PosInf"
| "fadd NegInf b = NegInf"
| "fadd a b = b"

fun fmul :: "double \<Rightarrow> double \<Rightarrow> double" where
  "fmul (Finite a) (Finite b) = to_double (a * b)"
| "fmul NaN b = NaN"
| "fmul a NaN = NaN"
| "fmul (Finite a) b = (if a = 0 then NaN else if 0 < a then b else fneg b)"
| "fmul a (Finite b) = (if b = 0 then NaN else if 0 < b then a else fneg a)"
| "fmul a b = (if a = b then PosInf else NegInf)"

fun fdiv :: "double \<Rightarrow> double \<Rightarrow> double" where
  "fdiv (Finite a) (Finite b) =
     (if b = 0 then (if a = 0 then NaN else if 0 < a then PosInf else NegInf)
      else to_double (a / b))"
| "fdiv NaN b = NaN"
| "fdiv a NaN = NaN"
| "fdiv (Finite a) b = Finite 0"
| "fdiv a (Finite b) = (if 0 \<le> b then a else fneg a)"
| "fdiv a b = NaN"



fun fless :: "double \<Rightarrow> double \<Rightarrow> bool" where
  "fless (Finite a) (Finite b) = (a < b)"
| "fless NaN b = False"
| "fless a NaN = False"
| "fless a PosInf = (a \<noteq> PosInf)"
| "fless NegInf b = (b \<noteq> NegInf)"
| "fless a b = False"

fun fle :: "double \<Rightarrow> double \<Rightarrow> bool" where
  "fle (Finite a) (Finite b) = (a \<le> b)"
| "fle NaN b = False"
| "fle a NaN = False"
| "fle a PosInf = True"
| "fle NegInf b = True"
| "fle a b = False"

text \<open>
  Python's \<open>x / y\<close> raises \<open>ZeroDivisionError\<close> when \<open>y\<close> is zero, which is \<open>None\<close> here, and
  is the IEEE quotient otherwise.
\<close>

definition py_truediv :: "double \<Rightarrow> double \<Rightarrow> double option" where
  "py_truediv a b = (if b = Finite 0 then None else Some (fdiv a b))"

text \<open>
  An \<open>int\<close> operand of a \<open>float\<close> operation is converted to the nearest \<open>float\<close> first. (The
  conversion raises \<open>OverflowError\<close> from \<open>2 ^ 1024\<close> on; the integers converted here are the
  length of a list and the value of an \<open>Integer\<close> column.)
\<close>

definition int_to_double :: "int \<Rightarrow> double" where
  "int_to_double n = to_double (of_int n)"

text \<open>
  \<open>round(x, 2)\<close>: the exact value of \<open>x\<close> is rounded to two decimals, a tie to the even
  last digit, and the result is the \<open>float\<close> nearest to that decimal; an infinity and a
  not-a-number are returned as they are.
\<close>

fun py_round2 :: "double \<Rightarrow> double" where
  "py_round2 (Finite q) = to_double (of_int (round_half_even (q * 100)) / 100)"
| "py_round2 x = x"

text \<open>
  The builtin \<open>sum\<close> over a list of \<open>float\<close>s is a parameter \<open>py_sum\<close> of the functions that
  call it: which \<open>float\<close> it returns depends on the interpreter, and the repository fixes
  none. Up to CPython 3.11 it adds the elements from left to right, starting from \<open>0\<close>,
  which is \<open>sequential_sum\<close>; from CPython 3.12 on it carries a compensation term for the
  rounding errors. Both return the exact sum when every partial sum is an integer below
  \<open>2 ^ 53\<close>, as in the examples below, which use \<open>sequential_sum\<close>.
\<close>

definition sequential_sum :: "double list \<Rightarrow> double" where
  "sequential_sum xs = fold (\<lambda>x total. fadd total x) xs (Finite 0)"

section \<open>Data model (app/models/models.py)\<close>

text \<open>
  The tables of the attempt-tracking core, one record per ORM class, with the columns the
  modelled functions read or write. A table is the list of its rows in the order a query
  without \<open>ORDER BY\<close> returns them; \<open>.first()\<close> is the first row of that list that
  satisfies the filter. Points in time are integers (seconds on one clock);
  \<open>astimezone()\<close> does not change the instant. The audit columns \<open>created_at\<close> and
  \<open>updated_at\<close> are left out: none of the modelled functions reads them.

  The \<open>Float\<close> columns (marks, percentages) hold values of the type \<open>double\<close>; a row
  keeps the value the code wrote to it. The columns \<open>marks\<close>, \<open>max_questions\<close> and
  \<open>is_correct\<close> are required fields of the schemas that create the rows
  (\<open>ExamQuestionCreate\<close>, \<open>ExamCreate\<close>) or are always set by \<open>create_student_answer\<close>, so
  they are modelled as non-null; so are the status, end date, remaining-attempts and
  attempt-number columns, which every function that inserts a row fills. Only
  \<open>Subscription.max_exams\<close> and the bounds of the exam's window are read as nullable by
  the code, and are options here.
\<close>

datatype ExamStatus = not_started | in_progress | completed

datatype SubscriptionStatus = active | expired | cancelled

record Exam =
  e_id :: int
  e_start_datetime :: "int option"
  e_end_datetime :: "int option"
  e_max_questions :: int

record ExamQuestion =
  eq_exam_id :: int
  eq_question_id :: int
  eq_marks :: double

record Answer =
  ans_id :: int
  ans_is_correct :: bool

record StudentExam =
  se_id :: int
  se_student_id :: int
  se_exam_id :: int
  se_status :: ExamStatus

record StudentAnswer =
  sa_student_exam_id :: int
  sa_question_id :: int
  sa_answer_id :: "int option"
  sa_is_correct :: bool

record ExamResult =
  er_student_exam_id :: int
  er_attempt_number :: int
  er_total_questions :: int
  er_correct_answers :: int
  er_score_percentage :: double
  er_obtained_marks :: double
  er_max_marks :: double
  er_passed_status :: bool

record Subscription =
  sub_id :: int
  sub_max_exams :: "int option"

record SubscriptionPlanPackage =
  spp_id :: int
  spp_subscription_id :: int

record UserSubscription =
  us_id :: int
  us_user_id :: int
  us_subscription_plan_packages_id :: int
  us_end_date :: int
  us_status :: SubscriptionStatus

record ExamAttempt =
  ea_user_subscription_id :: int
  ea_exam_id :: int
  ea_remaining_attempts :: int

record db =
  exams :: "Exam list"
  exam_questions :: "ExamQuestion list"
  answers :: "Answer list"
  student_exams :: "StudentExam list"
  student_answers :: "StudentAnswer list"
  exam_results :: "ExamResult list"
  subscriptions :: "Subscription list"
  subscription_plan_packages :: "SubscriptionPlanPackage list"
  user_subscriptions :: "UserSubscription list"
  exam_attempts :: "ExamAttempt list"

section \<open>Errors\<close>

text \<open>
  The messages of the exceptions, as constructors. \<open>FailedToCompleteExam d\<close> is the
  \<open>ValueError\<close> that \<open>complete_student_exam\<close> builds around the text of any exception
  \<open>d\<close> raised inside it; \<open>FailedToStartExam\<close> is the one \<open>start_student_exam\<close> builds
  around an exception that is not a \<open>ValueError\<close>.
\<close>

datatype detail =
    StudentExamNotFound
  | AssociatedExamNotFound
  | ExamNotStartedYet
  | ExamHasEnded
  | NoActiveSubscription
  | InvalidSubscriptionConfiguration
  | NoRemainingAttempts
  | FailedToSaveExamStart
  | FailedToStartExam
  | FailedToCompleteExam detail
  | MissingKey
  | DivisionByZero
  | OnlyForYourself
  | ExamNotFound
  | NotEnoughPermissions
  | UnexpectedError
  | PathBodyMismatch
  | ErrorCheckingRemainingAttempts

datatype exn = ValueError detail | AttributeError | KeyError

datatype http_error = HTTPException nat detail | Unhandled exn

section \<open>Queries\<close>

text \<open>
  \<open>obj.attr = v\<close> on the object a \<open>.first()\<close> query returned changes the first row that
  satisfies the filter.
\<close>

fun update_first :: "('a \<Rightarrow> bool) \<Rightarrow> ('a \<Rightarrow> 'a) \<Rightarrow> 'a list \<Rightarrow> 'a list" where
  "update_first P f [] = []"
| "update_first P f (x # xs) = (if P x then f x # xs else x # update_first P f xs)"

definition get_student_exam :: "db \<Rightarrow> int \<Rightarrow> StudentExam option" where
  "get_student_exam d student_exam_id = find (\<lambda>s. se_id s = student_exam_id) (student_exams d)"

definition get_exam :: "db \<Rightarrow> int \<Rightarrow> Exam option" where
  "get_exam d exam_id = find (\<lambda>e. e_id e = exam_id) (exams d)"

definition get_student_answers :: "db \<Rightarrow> int \<Rightarrow> StudentAnswer list" where
  "get_student_answers d student_exam_id =
     filter (\<lambda>a. sa_student_exam_id a = student_exam_id) (student_answers d)"

definition get_exam_questions :: "db \<Rightarrow> int \<Rightarrow> ExamQuestion list" where
  "get_exam_questions d exam_id = filter (\<lambda>q. eq_exam_id q = exam_id) (exam_questions d)"

definition get_exam_results :: "db \<Rightarrow> int \<Rightarrow> ExamResult list" where
  "get_exam_results d student_exam_id =
     filter (\<lambda>r. er_student_exam_id r = student_exam_id) (exam_results d)"

text \<open>
  \<open>order_by(ExamResult.attempt_number.desc()).first()\<close>: a row with the greatest attempt
  number, if there is a row.
\<close>

fun latest_result :: "ExamResult list \<Rightarrow> ExamResult option" where
  "latest_result [] = None"
| "latest_result (r # rs) =
     Some (fold (\<lambda>x best. if er_attempt_number best < er_attempt_number x then x else best) rs r)"

section \<open>Scoring (complete_student_exam in app/crud/student_exam.py)\<close>

text \<open>A dict comprehension: a later pair with the same key replaces an earlier one.\<close>

definition dict_of :: "('k \<times> 'v) list \<Rightarrow> ('k \<rightharpoonup> 'v)" where
  "dict_of kvs = map_of (rev kvs)"

text \<open>
  The loop over \<open>exam_questions\<close>, with the accumulators \<open>(correct_answers, obtained_marks)\<close>.
\<close>

fun score_loop ::
  "(int \<rightharpoonup> double) \<Rightarrow> (int \<rightharpoonup> StudentAnswer) \<Rightarrow> ExamQuestion list \<Rightarrow> int \<times> double \<Rightarrow>
     exn + int \<times> double"
where
  "score_loop question_marks answered_questions [] acc = Inr acc"
| "score_loop question_marks answered_questions (exam_question # rest) (correct_answers, obtained_marks) =
     (case question_marks (eq_question_id exam_question) of
        None \<Rightarrow> Inl KeyError
      | Some question_mark \<Rightarrow>
          (case answered_questions (eq_question_id exam_question) of
             None \<Rightarrow> score_loop question_marks answered_questions rest (correct_answers, obtained_marks)
           | Some answer \<Rightarrow>
               if sa_is_correct answer
               then score_loop question_marks answered_questions rest
                      (correct_answers + 1, fadd obtained_marks question_mark)
               else score_loop question_marks answered_questions rest (correct_answers, obtained_marks)))"

text \<open>
  \<open>create_exam_result\<close> rounds the three float fields once more and appends the row.
\<close>

definition create_exam_result :: "db \<Rightarrow> ExamResult \<Rightarrow> db" where
  "create_exam_result d exam_result =
     d\<lparr>exam_results := exam_results d @
          [exam_result\<lparr>er_score_percentage := py_round2 (er_score_percentage exam_result),
                       er_obtained_marks := py_round2 (er_obtained_marks exam_result),
                       er_max_marks := py_round2 (er_max_marks exam_result)\<rparr>]\<rparr>"

text \<open>
  \<open>complete_student_exam\<close>. Every exception raised inside it is caught and raised again as
  \<open>ValueError("Failed to complete exam: ...")\<close>; none of them comes after a commit, so the
  database is unchanged when it fails. The status of the session is not read. The two
  divisions are guarded in the source (by \<open>if exam_questions\<close> and by \<open>max_marks > 0\<close>); the
  \<open>int\<close> value \<open>0\<close> that the guards yield otherwise compares and rounds like \<open>0.0\<close>.
\<close>

definition complete_student_exam ::
  "(double list \<Rightarrow> double) \<Rightarrow> db \<Rightarrow> int \<Rightarrow> db \<times> (exn + StudentExam)"
where
  "complete_student_exam py_sum d student_exam_id =
     (case get_student_exam d student_exam_id of
        None \<Rightarrow> (d, Inl (ValueError (FailedToCompleteExam StudentExamNotFound)))
      | Some db_student_exam \<Rightarrow>
     (let student_answers = get_student_answers d student_exam_id in
      case get_exam d (se_exam_id db_student_exam) of
        None \<Rightarrow> (d, Inl (ValueError (FailedToCompleteExam AssociatedExamNotFound)))
      | Some exam \<Rightarrow>
     (let exam_questions = get_exam_questions d (e_id exam);
          question_marks = dict_of (map (\<lambda>q. (eq_question_id q, eq_marks q)) exam_questions);
          total_questions = e_max_questions exam;
          answered_questions = dict_of (map (\<lambda>a. (sa_question_id a, a)) student_answers);
          total_possible_marks = py_sum (map eq_marks exam_questions)
      in case (if exam_questions \<noteq> []
               then py_truediv total_possible_marks (int_to_double (int (length exam_questions)))
               else Some (Finite 0)) of
        None \<Rightarrow> (d, Inl (ValueError (FailedToCompleteExam DivisionByZero)))
      | Some avg_mark_per_question \<Rightarrow>
     (let max_marks = fmul avg_mark_per_question (int_to_double total_questions)
      in case score_loop question_marks answered_questions exam_questions (0, Finite 0) of
        Inl e \<Rightarrow> (d, Inl (ValueError (FailedToCompleteExam MissingKey)))
      | Inr (correct_answers, obtained_marks) \<Rightarrow>
     (case (if fless (Finite 0) max_marks
            then map_option (\<lambda>quotient. fmul quotient (Finite 100))
                   (py_truediv obtained_marks max_marks)
            else Some (Finite 0)) of
        None \<Rightarrow> (d, Inl (ValueError (FailedToCompleteExam DivisionByZero)))
      | Some unrounded \<Rightarrow>
     (let score_percentage = py_round2 unrounded;
          passing_percentage = Finite 40;
          passed_status = fle passing_percentage score_percentage;
          attempt_number =
            (case latest_result (get_exam_results d student_exam_id) of
               Some latest \<Rightarrow> er_attempt_number latest + 1
             | None \<Rightarrow> 1);
          result_data =
            \<lparr>er_student_exam_id = student_exam_id,
             er_attempt_number = attempt_number,
             er_total_questions = total_questions,
             er_correct_answers = correct_answers,
             er_score_percentage = score_percentage,
             er_obtained_marks = py_round2 obtained_marks,
             er_max_marks = py_round2 max_marks,
             er_passed_status = passed_status\<rparr>;
          d1 = create_exam_result d result_data;
          d2 = d1\<lparr>student_exams :=
                    update_first (\<lambda>s. se_id s = student_exam_id)
                      (\<lambda>s. s\<lparr>se_status := completed\<rparr>) (student_exams d1)\<rparr>
      in (d2, Inr (db_student_exam\<lparr>se_status := completed\<rparr>))))))))"

section \<open>Entitlement resolution\<close>

text \<open>
  The query for the active subscription of a user, written out in every function that
  needs it: \<open>status == active\<close> and \<open>end_date >= now\<close>, first row.
\<close>

definition active_subscription_query :: "db \<Rightarrow> int \<Rightarrow> int \<Rightarrow> UserSubscription option" where
  "active_subscription_query d user_id now =
     find (\<lambda>u. us_user_id u = user_id \<and> us_status u = active \<and> now \<le> us_end_date u)
       (user_subscriptions d)"

text \<open>
  \<open>active_subscription.subscription_plan_package.subscription\<close>: when the plan-package row
  is missing the first attribute is \<open>None\<close> and reading \<open>.subscription\<close> from it raises
  \<open>AttributeError\<close>; when the plan row is missing the value is \<open>None\<close>.
\<close>

definition subscription_of :: "db \<Rightarrow> UserSubscription \<Rightarrow> exn + Subscription option" where
  "subscription_of d u =
     (case find (\<lambda>p. spp_id p = us_subscription_plan_packages_id u) (subscription_plan_packages d) of
        None \<Rightarrow> Inl AttributeError
      | Some p \<Rightarrow> Inr (find (\<lambda>s. sub_id s = spp_subscription_id p) (subscriptions d)))"

text \<open>\<open>subscription.max_exams or 1\<close>: \<open>None\<close> and \<open>0\<close> are falsy.\<close>

definition max_exams_or_1 :: "Subscription \<Rightarrow> int" where
  "max_exams_or_1 s = (case sub_max_exams s of None \<Rightarrow> 1 | Some n \<Rightarrow> if n = 0 then 1 else n)"

section \<open>Attempt ledger (app/crud/exam_attempt.py)\<close>

definition get_exam_attempt :: "db \<Rightarrow> int \<Rightarrow> int \<Rightarrow> ExamAttempt option" where
  "get_exam_attempt d user_subscription_id exam_id =
     find (\<lambda>a. ea_user_subscription_id a = user_subscription_id \<and> ea_exam_id a = exam_id)
       (exam_attempts d)"

definition get_remaining_attempts :: "db \<Rightarrow> int \<Rightarrow> int \<Rightarrow> int" where
  "get_remaining_attempts d user_subscription_id exam_id =
     (case get_exam_attempt d user_subscription_id exam_id of
        Some attempt \<Rightarrow> ea_remaining_attempts attempt
      | None \<Rightarrow> 0)"

definition create_or_update_exam_attempt :: "db \<Rightarrow> int \<Rightarrow> int \<Rightarrow> int \<Rightarrow> db \<times> ExamAttempt" where
  "create_or_update_exam_attempt d user_subscription_id exam_id max_attempts =
     (case get_exam_attempt d user_subscription_id exam_id of
        Some exam_attempt \<Rightarrow>
          if ea_remaining_attempts exam_attempt < max_attempts
          then (d\<lparr>exam_attempts :=
                    update_first
                      (\<lambda>a. ea_user_subscription_id a = user_subscription_id \<and> ea_exam_id a = exam_id)
                      (\<lambda>a. a\<lparr>ea_remaining_attempts := max_attempts\<rparr>) (exam_attempts d)\<rparr>,
                exam_attempt\<lparr>ea_remaining_attempts := max_attempts\<rparr>)
          else (d, exam_attempt)
      | None \<Rightarrow>
          (let exam_attempt =
                 \<lparr>ea_user_subscription_id = user_subscription_id, ea_exam_id = exam_id,
                  ea_remaining_attempts = max_attempts\<rparr>
           in (d\<lparr>exam_attempts := exam_attempts d @ [exam_attempt]\<rparr>, exam_attempt)))"

section \<open>Sessions (app/crud/student_exam.py)\<close>

text \<open>
  An operation takes the committed database and returns the committed database after it,
  with its result or the exception it raised. Changes made before an exception and not
  yet committed are lost with the request's session; changes committed before the
  exception stay.
\<close>

record StudentExamCreate =
  sec_student_id :: int
  sec_exam_id :: int
  sec_status :: ExamStatus

text \<open>The primary key the database gives a new row: one not in use.\<close>

definition next_id :: "int list \<Rightarrow> int" where
  "next_id ids = fold max ids 0 + 1"

text \<open>
  \<open>create_student_exam\<close>: the session row is added and committed first; the subscription
  is looked up after that, at the time \<open>now\<close> this function reads.
\<close>

definition create_student_exam :: "db \<Rightarrow> int \<Rightarrow> StudentExamCreate \<Rightarrow> db \<times> (exn + StudentExam)" where
  "create_student_exam d now student_exam =
     (let db_student_exam =
            \<lparr>se_id = next_id (map se_id (student_exams d)),
             se_student_id = sec_student_id student_exam,
             se_exam_id = sec_exam_id student_exam,
             se_status = sec_status student_exam\<rparr>;
          d1 = d\<lparr>student_exams := student_exams d @ [db_student_exam]\<rparr>
      in case active_subscription_query d1 (sec_student_id student_exam) now of
           None \<Rightarrow> (d1, Inl (ValueError NoActiveSubscription))
         | Some active_subscription \<Rightarrow>
             (case subscription_of d1 active_subscription of
                Inl e \<Rightarrow> (d1, Inl e)
              | Inr None \<Rightarrow> (d1, Inl (ValueError InvalidSubscriptionConfiguration))
              | Inr (Some subscription) \<Rightarrow>
                  (let max_attempts = max_exams_or_1 subscription;
                       initial_remaining = max_attempts - 1;
                       exam_attempt =
                         \<lparr>ea_user_subscription_id = us_id active_subscription,
                          ea_exam_id = sec_exam_id student_exam,
                          ea_remaining_attempts = initial_remaining\<rparr>
                   in (d1\<lparr>exam_attempts := exam_attempts d1 @ [exam_attempt]\<rparr>,
                       Inr db_student_exam))))"

text \<open>
  \<open>start_student_exam\<close>. The checks come in the order of the source; the changes (deleted
  answers, status, ledger) are committed together at the end, and \<open>commit_ok\<close> says
  whether that commit succeeds. An exception other than \<open>ValueError\<close> is raised again
  as \<open>ValueError("Failed to start exam: ...")\<close>.
\<close>

definition start_student_exam :: "db \<Rightarrow> int \<Rightarrow> bool \<Rightarrow> int \<Rightarrow> db \<times> (exn + StudentExam)" where
  "start_student_exam d current_time commit_ok student_exam_id =
     (case get_student_exam d student_exam_id of
        None \<Rightarrow> (d, Inl (ValueError StudentExamNotFound))
      | Some db_student_exam \<Rightarrow>
     (case get_exam d (se_exam_id db_student_exam) of
        None \<Rightarrow> (d, Inl (ValueError AssociatedExamNotFound))
      | Some exam \<Rightarrow>
     if (case e_start_datetime exam of None \<Rightarrow> False | Some exam_start \<Rightarrow> current_time < exam_start)
     then (d, Inl (ValueError ExamNotStartedYet))
     else if (case e_end_datetime exam of None \<Rightarrow> False | Some exam_end \<Rightarrow> exam_end < current_time)
     then (d, Inl (ValueError ExamHasEnded))
     else
     (case active_subscription_query d (se_student_id db_student_exam) current_time of
        None \<Rightarrow> (d, Inl (ValueError NoActiveSubscription))
      | Some active_subscription \<Rightarrow>
     (case subscription_of d active_subscription of
        Inl e \<Rightarrow> (d, Inl (ValueError FailedToStartExam))
      | Inr None \<Rightarrow> (d, Inl (ValueError InvalidSubscriptionConfiguration))
      | Inr (Some subscription) \<Rightarrow>
     (let existing = get_exam_attempt d (us_id active_subscription) (se_exam_id db_student_exam)
      in if (case existing of None \<Rightarrow> False | Some exam_attempt \<Rightarrow> ea_remaining_attempts exam_attempt \<le> 0)
         then (d, Inl (ValueError NoRemainingAttempts))
         else
     (let d1 = (case existing of
                  None \<Rightarrow>
                    d\<lparr>exam_attempts := exam_attempts d @
                         [\<lparr>ea_user_subscription_id = us_id active_subscription,
                           ea_exam_id = se_exam_id db_student_exam,
                           ea_remaining_attempts = max_exams_or_1 subscription\<rparr>]\<rparr>
                | Some exam_attempt \<Rightarrow> d);
          d2 = (if se_status db_student_exam \<noteq> not_started
                then d1\<lparr>student_answers :=
                          filter (\<lambda>a. sa_student_exam_id a \<noteq> student_exam_id) (student_answers d1)\<rparr>
                else d1);
          d3 = d2\<lparr>student_exams :=
                    update_first (\<lambda>s. se_id s = student_exam_id)
                      (\<lambda>s. s\<lparr>se_status := in_progress\<rparr>) (student_exams d2)\<rparr>;
          d4 = d3\<lparr>exam_attempts :=
                    update_first
                      (\<lambda>a. ea_user_subscription_id a = us_id active_subscription \<and>
                           ea_exam_id a = se_exam_id db_student_exam)
                      (\<lambda>a. a\<lparr>ea_remaining_attempts := ea_remaining_attempts a - 1\<rparr>)
                      (exam_attempts d3)\<rparr>
      in if commit_ok then (d4, Inr (db_student_exam\<lparr>se_status := in_progress\<rparr>))
         else (d, Inl (ValueError FailedToSaveExamStart))))))))"

text \<open>
  \<open>create_student_answer\<close>: the correctness flag of the request is ignored; it is read
  from the \<open>Answer\<close> row when \<open>answer_id\<close> is truthy and the row exists.
\<close>

record StudentAnswerCreate =
  sac_student_exam_id :: int
  sac_question_id :: int
  sac_answer_id :: "int option"
  sac_is_correct :: "bool option"

definition create_student_answer :: "db \<Rightarrow> StudentAnswerCreate \<Rightarrow> db \<times> StudentAnswer" where
  "create_student_answer d student_answer =
     (let is_correct =
            (case sac_answer_id student_answer of
               None \<Rightarrow> False
             | Some answer_id \<Rightarrow>
                 if answer_id = 0 then False
                 else (case find (\<lambda>a. ans_id a = answer_id) (answers d) of
                         None \<Rightarrow> False
                       | Some db_answer \<Rightarrow> ans_is_correct db_answer));
          db_student_answer =
            \<lparr>sa_student_exam_id = sac_student_exam_id student_answer,
             sa_question_id = sac_question_id student_answer,
             sa_answer_id = sac_answer_id student_answer,
             sa_is_correct = is_correct\<rparr>
      in (d\<lparr>student_answers := student_answers d @ [db_student_answer]\<rparr>, db_student_answer))"

section \<open>Endpoints (app/routes/student_exams.py)\<close>

text \<open>
  The endpoints take the id of the authenticated user. The create endpoint reads the
  clock itself (\<open>now_route\<close>) before \<open>create_student_exam\<close> reads it again (\<open>now_crud\<close>).
\<close>

definition create_student_exam_route ::
  "db \<Rightarrow> int \<Rightarrow> int \<Rightarrow> int \<Rightarrow> StudentExamCreate \<Rightarrow> db \<times> (http_error + StudentExam)"
where
  "create_student_exam_route d current_user now_route now_crud student_exam =
     (if sec_student_id student_exam \<noteq> current_user
      then (d, Inl (HTTPException 403 OnlyForYourself))
      else case get_exam d (sec_exam_id student_exam) of
        None \<Rightarrow> (d, Inl (HTTPException 404 ExamNotFound))
      | Some exam \<Rightarrow>
     (case find (\<lambda>s. se_student_id s = sec_student_id student_exam \<and>
                      se_exam_id s = sec_exam_id student_exam) (student_exams d) of
        Some existing_exam \<Rightarrow> (d, Inr existing_exam)
      | None \<Rightarrow>
     (case active_subscription_query d current_user now_route of
        None \<Rightarrow> (d, Inl (HTTPException 403 NoActiveSubscription))
      | Some active_subscription \<Rightarrow>
     (case subscription_of d active_subscription of
        Inl e \<Rightarrow> (d, Inl (HTTPException 500 UnexpectedError))
      | Inr None \<Rightarrow> (d, Inl (HTTPException 403 InvalidSubscriptionConfiguration))
      | Inr (Some subscription) \<Rightarrow>
     (case create_student_exam d now_crud student_exam of
        (d1, Inl (ValueError ve)) \<Rightarrow> (d1, Inl (HTTPException 400 ve))
      | (d1, Inl AttributeError) \<Rightarrow> (d1, Inl (HTTPException 500 UnexpectedError))
      | (d1, Inl KeyError) \<Rightarrow> (d1, Inl (HTTPException 500 UnexpectedError))
      | (d1, Inr result) \<Rightarrow>
          (fst (create_or_update_exam_attempt d1 (us_id active_subscription)
                  (sec_exam_id student_exam) (max_exams_or_1 subscription)),
           Inr result))))))"

definition start_student_exam_route ::
  "db \<Rightarrow> int \<Rightarrow> int \<Rightarrow> bool \<Rightarrow> int \<Rightarrow> db \<times> (http_error + StudentExam)"
where
  "start_student_exam_route d current_user current_time commit_ok student_exam_id =
     (case get_student_exam d student_exam_id of
        None \<Rightarrow> (d, Inl (HTTPException 404 StudentExamNotFound))
      | Some db_student_exam \<Rightarrow>
          if se_student_id db_student_exam \<noteq> current_user
          then (d, Inl (HTTPException 403 NotEnoughPermissions))
          else (case start_student_exam d current_time commit_ok student_exam_id of
                  (d1, Inl (ValueError e)) \<Rightarrow> (d1, Inl (HTTPException 400 e))
                | (d1, Inl AttributeError) \<Rightarrow> (d1, Inl (HTTPException 500 UnexpectedError))
                | (d1, Inl KeyError) \<Rightarrow> (d1, Inl (HTTPException 500 UnexpectedError))
                | (d1, Inr started_exam) \<Rightarrow> (d1, Inr started_exam)))"

text \<open>
  The complete endpoint has no handler around the call: a \<open>ValueError\<close> of
  \<open>complete_student_exam\<close> leaves it unhandled.
\<close>

definition complete_student_exam_route ::
  "(double list \<Rightarrow> double) \<Rightarrow> db \<Rightarrow> int \<Rightarrow> int \<Rightarrow> db \<times> (http_error + StudentExam)"
where
  "complete_student_exam_route py_sum d current_user student_exam_id =
     (case get_student_exam d student_exam_id of
        None \<Rightarrow> (d, Inl (HTTPException 404 StudentExamNotFound))
      | Some db_student_exam \<Rightarrow>
          if se_student_id db_student_exam \<noteq> current_user
          then (d, Inl (HTTPException 403 NotEnoughPermissions))
          else (case complete_student_exam py_sum d student_exam_id of
                  (d1, Inl e) \<Rightarrow> (d1, Inl (Unhandled e))
                | (d1, Inr completed_exam) \<Rightarrow> (d1, Inr completed_exam)))"

definition create_student_answer_route ::
  "db \<Rightarrow> int \<Rightarrow> int \<Rightarrow> StudentAnswerCreate \<Rightarrow> db \<times> (http_error + StudentAnswer)"
where
  "create_student_answer_route d current_user student_exam_id student_answer =
     (case get_student_exam d student_exam_id of
        None \<Rightarrow> (d, Inl (HTTPException 404 StudentExamNotFound))
      | Some db_student_exam \<Rightarrow>
          if se_student_id db_student_exam \<noteq> current_user
          then (d, Inl (HTTPException 403 NotEnoughPermissions))
          else if student_exam_id \<noteq> sac_student_exam_id student_answer
          then (d, Inl (HTTPException 400 PathBodyMismatch))
          else (case create_student_answer d student_answer of
                  (d1, row) \<Rightarrow> (d1, Inr row)))"

text \<open>
  The attempts endpoint. Its handler catches \<open>Exception\<close>, which the \<open>HTTPException\<close>s
  raised inside it are, so each of its failures leaves it as status 500.
\<close>

record RemainingAttemptsResponse =
  rar_remaining_attempts :: int
  rar_max_attempts :: int
  rar_exam_id :: int
  rar_student_id :: int

definition get_remaining_attempts_route ::
  "db \<Rightarrow> int \<Rightarrow> int \<Rightarrow> int \<Rightarrow> http_error + RemainingAttemptsResponse"
where
  "get_remaining_attempts_route d current_user now exam_id =
     (case active_subscription_query d current_user now of
        None \<Rightarrow> Inl (HTTPException 500 ErrorCheckingRemainingAttempts)
      | Some active_subscription \<Rightarrow>
     (case subscription_of d active_subscription of
        Inl e \<Rightarrow> Inl (HTTPException 500 ErrorCheckingRemainingAttempts)
      | Inr None \<Rightarrow> Inl (HTTPException 500 ErrorCheckingRemainingAttempts)
      | Inr (Some subscription) \<Rightarrow>
     (case get_exam_attempt d (us_id active_subscription) exam_id of
        None \<Rightarrow>
          Inr \<lparr>rar_remaining_attempts = max_exams_or_1 subscription,
               rar_max_attempts = max_exams_or_1 subscription,
               rar_exam_id = exam_id, rar_student_id = current_user\<rparr>
      | Some exam_attempt \<Rightarrow>
          Inr \<lparr>rar_remaining_attempts = ea_remaining_attempts exam_attempt,
               rar_max_attempts = max_exams_or_1 subscription,
               rar_exam_id = exam_id, rar_student_id = current_user\<rparr>)))"

section \<open>Expiry sweeper (update_expired_subscriptions in app/crud/subscription.py)\<close>

text \<open>
  The rows the query returns are objects of the session; a row is named here by its
  position in the table. A batch sets the status of its rows and commits;
  \<open>commit_fails k\<close> says whether the commit of batch number \<open>k\<close> raises, in which case the
  handler rolls the batch back and the loop goes on. \<open>count\<close> is incremented before the
  commit, for every row of every batch.
\<close>

definition batch_size :: nat where
  "batch_size = 100"

definition expired_subscriptions :: "UserSubscription list \<Rightarrow> int \<Rightarrow> nat list" where
  "expired_subscriptions rows current_time =
     filter (\<lambda>i. us_status (rows ! i) = active \<and> us_end_date (rows ! i) < current_time)
       [0..<length rows]"

definition set_expired :: "nat \<Rightarrow> UserSubscription list \<Rightarrow> UserSubscription list" where
  "set_expired i rows = rows[i := (rows ! i)\<lparr>us_status := expired\<rparr>]"

function sweep_batches ::
  "(nat \<Rightarrow> bool) \<Rightarrow> nat list \<Rightarrow> nat \<Rightarrow> UserSubscription list \<times> nat \<Rightarrow> UserSubscription list \<times> nat"
where
  "sweep_batches commit_fails expired_rows i (rows, count) =
     (if i < length expired_rows
      then (let batch = take batch_size (drop i expired_rows);
                pending = fold set_expired batch rows;
                count1 = count + length batch
            in sweep_batches commit_fails expired_rows (i + batch_size)
                 (if commit_fails (i div batch_size) then rows else pending, count1))
      else (rows, count))"
  by pat_completeness auto
termination
  by (relation "measure (\<lambda>(commit_fails, expired_rows, i, acc). length expired_rows - i)")
     (auto simp: batch_size_def)

definition update_expired_subscriptions :: "(nat \<Rightarrow> bool) \<Rightarrow> db \<Rightarrow> int \<Rightarrow> db \<times> nat" where
  "update_expired_subscriptions commit_fails d current_time =
     (let expired_rows = expired_subscriptions (user_subscriptions d) current_time
      in if expired_rows = [] then (d, 0)
         else (case sweep_batches commit_fails expired_rows 0 (user_subscriptions d, 0) of
                 (rows, count) \<Rightarrow> (d\<lparr>user_subscriptions := rows\<rparr>, count)))"

section \<open>The scoring formula as the specification words it\<close>

text \<open>
  Section 4.4 of the specification, step by step, in the arithmetic of \<open>float\<close>. \<open>rows\<close> are
  the exam-question rows of the exam and \<open>submitted\<close> the submitted answers of the
  session. Where a question was answered more than once (each submission stores a new
  row) its submitted answer is the one stored last. The obtained marks accumulate from
  \<open>0.0\<close> in the order of the rows.
\<close>

definition spec_average_mark_per_question :: "(double list \<Rightarrow> double) \<Rightarrow> ExamQuestion list \<Rightarrow> double" where
  "spec_average_mark_per_question py_sum rows =
     (if rows = [] then Finite 0
      else fdiv (py_sum (map eq_marks rows)) (int_to_double (int (length rows))))"

definition spec_max_marks_for_attempt ::
  "(double list \<Rightarrow> double) \<Rightarrow> ExamQuestion list \<Rightarrow> int \<Rightarrow> double"
where
  "spec_max_marks_for_attempt py_sum rows max_questions =
     fmul (spec_average_mark_per_question py_sum rows) (int_to_double max_questions)"

definition spec_submitted_answer :: "StudentAnswer list \<Rightarrow> int \<Rightarrow> StudentAnswer option" where
  "spec_submitted_answer submitted question_id =
     (let given = filter (\<lambda>a. sa_question_id a = question_id) submitted
      in if given = [] then None else Some (last given))"

definition spec_answered_correctly :: "StudentAnswer list \<Rightarrow> ExamQuestion \<Rightarrow> bool" where
  "spec_answered_correctly submitted row =
     (case spec_submitted_answer submitted (eq_question_id row) of
        None \<Rightarrow> False
      | Some a \<Rightarrow> sa_is_correct a)"

definition spec_obtained_marks :: "ExamQuestion list \<Rightarrow> StudentAnswer list \<Rightarrow> double" where
  "spec_obtained_marks rows submitted =
     fold (\<lambda>row total. fadd total (eq_marks row))
       (filter (spec_answered_correctly submitted) rows) (Finite 0)"

definition spec_correct_answers :: "ExamQuestion list \<Rightarrow> StudentAnswer list \<Rightarrow> int" where
  "spec_correct_answers rows submitted =
     int (length (filter (spec_answered_correctly submitted) rows))"

definition spec_score_percentage :: "double \<Rightarrow> double \<Rightarrow> double" where
  "spec_score_percentage obtained max_marks_for_attempt =
     (if fless (Finite 0) max_marks_for_attempt
      then py_round2 (fmul (fdiv obtained max_marks_for_attempt) (Finite 100))
      else Finite 0)"

definition spec_passed :: "double \<Rightarrow> bool" where
  "spec_passed score_percentage = fle (Finite 40) score_percentage"

section \<open>Repeated starts and example databases\<close>


text \<open>
  A student (user 7) with an active subscription to a plan with \<open>max_exams = 2\<close>, an exam
  of two questions worth 50 marks each, no session and no ledger row.
\<close>

definition scenario_db :: db where
  "scenario_db =
     \<lparr>exams = [\<lparr>e_id = 1, e_start_datetime = Some 0, e_end_datetime = Some 1000, e_max_questions = 2\<rparr>],
      exam_questions =
        [\<lparr>eq_exam_id = 1, eq_question_id = 1, eq_marks = Finite 50\<rparr>,
         \<lparr>eq_exam_id = 1, eq_question_id = 2, eq_marks = Finite 50\<rparr>],
      answers = [\<lparr>ans_id = 11, ans_is_correct = True\<rparr>, \<lparr>ans_id = 21, ans_is_correct = True\<rparr>],
      student_exams = [],
      student_answers = [],
      exam_results = [],
      subscriptions = [\<lparr>sub_id = 1, sub_max_exams = Some 2\<rparr>],
      subscription_plan_packages = [\<lparr>spp_id = 1, spp_subscription_id = 1\<rparr>],
      user_subscriptions =
        [\<lparr>us_id = 1, us_user_id = 7, us_subscription_plan_packages_id = 1, us_end_date = 1000,
          us_status = active\<rparr>],
      exam_attempts = []\<rparr>"

definition scenario_request :: StudentExamCreate where
  "scenario_request = \<lparr>sec_student_id = 7, sec_exam_id = 1, sec_status = not_started\<rparr>"

text \<open>The session created through the endpoint, started, both questions answered
  correctly, completed, and started again.\<close>

definition scenario_created :: db where
  "scenario_created = fst (create_student_exam_route scenario_db 7 10 10 scenario_request)"

definition scenario_started :: db where
  "scenario_started = fst (start_student_exam_route scenario_created 7 20 True 1)"

definition scenario_answered :: db where
  "scenario_answered =
     fst (create_student_answer_route
            (fst (create_student_answer_route scenario_started 7 1
                    \<lparr>sac_student_exam_id = 1, sac_question_id = 1, sac_answer_id = Some 11,
                     sac_is_correct = None\<rparr>))
            7 1
            \<lparr>sac_student_exam_id = 1, sac_question_id = 2, sac_answer_id = Some 21,
             sac_is_correct = None\<rparr>)"

definition scenario_completed :: db where
  "scenario_completed =
     fst (complete_student_exam_route sequential_sum scenario_answered 7 1)"

definition scenario_restarted :: db where
  "scenario_restarted = fst (start_student_exam_route scenario_completed 7 30 True 1)"

text \<open>
  An exam whose \<open>max_questions\<close> is \<open>questions\<close> with two exam-question rows worth 10 marks
  each, and a session in progress with both questions answered correctly.
\<close>

definition two_question_db :: "int \<Rightarrow> db" where
  "two_question_db questions =
     \<lparr>exams = [\<lparr>e_id = 1, e_start_datetime = None, e_end_datetime = None,
                e_max_questions = questions\<rparr>],
      exam_questions =
        [\<lparr>eq_exam_id = 1, eq_question_id = 1, eq_marks = Finite 10\<rparr>,
         \<lparr>eq_exam_id = 1, eq_question_id = 2, eq_marks = Finite 10\<rparr>],
      answers = [],
      student_exams = [\<lparr>se_id = 1, se_student_id = 7, se_exam_id = 1, se_status = in_progress\<rparr>],
      student_answers =
        [\<lparr>sa_student_exam_id = 1, sa_question_id = 1, sa_answer_id = Some 11, sa_is_correct = True\<rparr>,
         \<lparr>sa_student_exam_id = 1, sa_question_id = 2, sa_answer_id = Some 21, sa_is_correct = True\<rparr>],
      exam_results = [],
      subscriptions = [],
      subscription_plan_packages = [],
      user_subscriptions = [],
      exam_attempts = []\<rparr>"

text \<open>
  An exam with two exam-question rows for the same question 5, worth 10 and 30 marks
  (\<open>bulk_add_questions_to_exam\<close> with the question listed twice adds both rows, and
  \<open>update_exam_question_marks\<close> changes the first of them), and a session in progress with
  question 5 answered correctly.
\<close>

definition duplicate_question_db :: db where
  "duplicate_question_db =
     \<lparr>exams = [\<lparr>e_id = 1, e_start_datetime = None, e_end_datetime = None, e_max_questions = 2\<rparr>],
      exam_questions =
        [\<lparr>eq_exam_id = 1, eq_question_id = 5, eq_marks = Finite 10\<rparr>,
         \<lparr>eq_exam_id = 1, eq_question_id = 5, eq_marks = Finite 30\<rparr>],
      answers = [],
      student_exams = [\<lparr>se_id = 1, se_student_id = 7, se_exam_id = 1, se_status = in_progress\<rparr>],
      student_answers =
        [\<lparr>sa_student_exam_id = 1, sa_question_id = 5, sa_answer_id = Some 51, sa_is_correct = True\<rparr>],
      exam_results = [],
      subscriptions = [],
      subscription_plan_packages = [],
      user_subscriptions = [],
      exam_attempts = []\<rparr>"


text \<open>
  150 subscriptions, all active with an end date (0) in the past of the time 1 at which
  the sweeper runs.
\<close>

definition sweeper_db :: db where
  "sweeper_db =
     \<lparr>exams = [], exam_questions = [], answers = [], student_exams = [], student_answers = [],
      exam_results = [], subscriptions = [], subscription_plan_packages = [],
      user_subscriptions =
        map (\<lambda>i. \<lparr>us_id = int i + 1, us_user_id = int i + 1,
                   us_subscription_plan_packages_id = 1, us_end_date = 0, us_status = active\<rparr>)
          [0..<150],
      exam_attempts = []\<rparr>"

section \<open>Facts about rounding\<close>

lemma round_half_even_of_int: "round_half_even (of_int n) = n"
  by (simp add: round_half_even_def)

lemma round_half_even_le:
  assumes "x \<le> of_int n"
  shows "round_half_even x \<le> n"
proof -
  have fl: "\<lfloor>x\<rfloor> \<le> n" using assms by (simp add: floor_le_iff)
  show ?thesis
  proof (cases "\<lfloor>x\<rfloor> = n")
    case True
    then have "x - of_int \<lfloor>x\<rfloor> \<le> 0" using assms by simp
    then show ?thesis using True by (simp add: round_half_even_def Let_def)
  next
    case False
    with fl have "\<lfloor>x\<rfloor> + 1 \<le> n" by simp
    then show ?thesis by (simp add: round_half_even_def Let_def)
  qed
qed

lemma round_half_even_ge:
  assumes "of_int n \<le> x"
  shows "n \<le> round_half_even x"
proof -
  have "n \<le> \<lfloor>x\<rfloor>" using assms by (simp add: le_floor_iff)
  then show ?thesis by (simp add: round_half_even_def Let_def)
qed

lemma round_half_even_upper: "(of_int (round_half_even x) :: rat) \<le> x + 1 / 2"
proof -
  have a: "of_int \<lfloor>x\<rfloor> \<le> x" by simp
  have b: "(of_int (\<lfloor>x\<rfloor> + 1) :: rat) \<le> x + 1 / 2" if "\<not> x - of_int \<lfloor>x\<rfloor> < 1 / 2"
    using that by simp
  have c: "(of_int \<lfloor>x\<rfloor> :: rat) \<le> x + 1 / 2" using a by linarith
  show ?thesis
    unfolding round_half_even_def Let_def using b c by (simp only: split: if_split) blast
qed

lemma round_half_even_le_near:
  assumes "x < of_int n + 1 / 2"
  shows "round_half_even x \<le> n"
proof -
  have "(of_int (round_half_even x) :: rat) < of_int n + 1"
    using round_half_even_upper[of x] assms by simp
  then have "(of_int (round_half_even x) :: rat) < of_int (n + 1)" by simp
  then have "round_half_even x < n + 1" by (simp only: of_int_less_iff)
  then show ?thesis by simp
qed

lemma pow2_pos: "0 < pow2 e"
  by (simp add: pow2_def)

lemma pow2_powi: "pow2 e = 2 powi e"
  by (simp add: pow2_def power_int_def power_one_over inverse_eq_divide)

lemma pow2_mono: "a \<le> b \<Longrightarrow> pow2 a \<le> pow2 b"
  by (simp add: pow2_powi power_int_increasing)

lemma pow2_add: "pow2 (a + b) = pow2 a * pow2 b"
  unfolding pow2_powi by (rule power_int_add) simp

lemma pow2_nonpos: "e \<le> 0 \<Longrightarrow> pow2 e = 1 / 2 ^ nat (- e)"
  by (cases "e = 0") (simp_all add: pow2_def)

lemma pow2_nonneg: "0 \<le> e \<Longrightarrow> pow2 e = 2 ^ nat e"
  by (simp add: pow2_def)

lemma floor_log2_less:
  assumes "0 < q" and "q < 2 ^ w" and "0 < w"
  shows "floor_log2 q < int w"
proof (cases "1 \<le> q")
  case True
  have "\<lfloor>q\<rfloor> < 2 ^ w" using assms(2) by (simp add: floor_less_iff)
  then have "bitlen \<lfloor>q\<rfloor> \<le> int w" by (simp add: bitlen_le_iff_power)
  then show ?thesis using True by (simp add: floor_log2_def)
next
  case False
  have "0 \<le> bitlen (\<lceil>1 / q\<rceil> - 1)" by (rule bitlen_nonneg)
  then show ?thesis using False assms(3) by (simp add: floor_log2_def)
qed

lemma floor_log2_ge:
  assumes "1 \<le> q"
  shows "0 \<le> floor_log2 q" and "pow2 (floor_log2 q) \<le> q"
proof -
  have pos: "0 < \<lfloor>q\<rfloor>" using assms by (simp add: less_floor_iff)
  then have "1 \<le> bitlen \<lfloor>q\<rfloor>" by (simp add: bitlen_ge_iff_power)
  then show nonneg: "0 \<le> floor_log2 q" using assms by (simp add: floor_log2_def)
  have "2 ^ nat (bitlen \<lfloor>q\<rfloor> - 1) \<le> \<lfloor>q\<rfloor>" using bitlen_bounds[OF pos] by simp
  then have "(of_int (2 ^ nat (bitlen \<lfloor>q\<rfloor> - 1)) :: rat) \<le> of_int \<lfloor>q\<rfloor>"
    by (simp only: of_int_le_iff)
  also have "\<dots> \<le> q" by simp
  finally show "pow2 (floor_log2 q) \<le> q"
    using assms nonneg by (simp add: pow2_nonneg floor_log2_def)
qed

lemma to_double_0: "to_double 0 = Finite 0"
  by (simp add: to_double_def)

lemma to_double_pos:
  assumes "0 < q"
  shows "to_double q =
           (if pow2 1024 \<le> of_int (round_half_even (q / pow2 (max (floor_log2 q - 52) (- 1074)))) *
                              pow2 (max (floor_log2 q - 52) (- 1074))
            then PosInf
            else Finite (of_int (round_half_even (q / pow2 (max (floor_log2 q - 52) (- 1074)))) *
                           pow2 (max (floor_log2 q - 52) (- 1074))))"
  using assms by (simp add: to_double_def Let_def)

lemma to_double_neg:
  assumes "q < 0"
  shows "to_double q = fneg (to_double (- q))"
  using assms by (simp add: to_double_def Let_def)

lemma to_double_pos_cases:
  assumes "0 < q"
  shows "to_double q = PosInf \<or> (\<exists>v. to_double q = Finite v \<and> 0 \<le> v)"
proof -
  let ?e = "max (floor_log2 q - 52) (- 1074)"
  have "of_int 0 \<le> q / pow2 ?e" using assms pow2_pos[of ?e] by simp
  then have "0 \<le> round_half_even (q / pow2 ?e)" by (rule round_half_even_ge)
  then have "0 \<le> (of_int (round_half_even (q / pow2 ?e)) :: rat) * pow2 ?e"
    using pow2_pos[of ?e] by simp
  then show ?thesis by (simp add: to_double_pos[OF assms])
qed

lemma to_double_nonpos:
  assumes "q \<le> 0"
  shows "to_double q = NegInf \<or> (\<exists>v. to_double q = Finite v \<and> v \<le> 0)"
proof (cases "q = 0")
  case True
  then show ?thesis by (simp add: to_double_0)
next
  case False
  then have neg: "q < 0" using assms by simp
  then have "0 < - q" by simp
  from to_double_pos_cases[OF this] show ?thesis
    by (auto simp: to_double_neg[OF neg])
qed

lemma to_double_upper:
  assumes "0 \<le> q" and "q \<le> of_int n" and "n < 2 ^ 53"
  shows "\<exists>v. to_double q = Finite v \<and> 0 \<le> v \<and> v \<le> of_int n"
proof (cases "q = 0")
  case True
  then show ?thesis using assms by (simp add: to_double_0)
next
  case False
  then have pos: "0 < q" using assms by simp
  let ?e = "max (floor_log2 q - 52) (- 1074)"
  let ?k = "nat (- ?e)"
  let ?m = "round_half_even (q / pow2 ?e)"
  have "(of_int n :: rat) < of_int (2 ^ 53)" using assms(3) by (simp only: of_int_less_iff)
  then have "q < 2 ^ 53" using assms(2) by simp
  then have "floor_log2 q < 53" using floor_log2_less[OF pos, of 53] by simp
  then have e: "?e \<le> 0" by simp
  have pe: "pow2 ?e = 1 / 2 ^ ?k" using e by (rule pow2_nonpos)
  have "q / pow2 ?e = q * 2 ^ ?k" by (simp add: pe)
  also have "\<dots> \<le> of_int n * 2 ^ ?k" using assms(2) by simp
  finally have "q / pow2 ?e \<le> of_int (n * 2 ^ ?k)" by simp
  then have "?m \<le> n * 2 ^ ?k" by (rule round_half_even_le)
  then have "(of_int ?m :: rat) \<le> of_int (n * 2 ^ ?k)" by (simp only: of_int_le_iff)
  then have hi: "(of_int ?m :: rat) * pow2 ?e \<le> of_int n"
    by (simp add: pe pos_divide_le_eq)
  have "of_int 0 \<le> q / pow2 ?e" using pos pow2_pos[of ?e] by simp
  then have "0 \<le> ?m" by (rule round_half_even_ge)
  then have lo: "0 \<le> (of_int ?m :: rat) * pow2 ?e" using pow2_pos[of ?e] by simp
  have "(of_int n :: rat) < 2 ^ 1024"
    using \<open>(of_int n :: rat) < of_int (2 ^ 53)\<close> power_strict_increasing[of 53 1024 "2::rat"]
    by simp
  then have "\<not> pow2 1024 \<le> (of_int ?m :: rat) * pow2 ?e" using hi by (simp add: pow2_def)
  then show ?thesis using hi lo by (simp add: to_double_pos[OF pos])
qed

lemma to_double_lower:
  assumes "1 \<le> n" and "of_int n \<le> q" and "n < 2 ^ 53"
  shows "fle (Finite (of_int n)) (to_double q)"
proof -
  have q1: "1 \<le> q" using assms(1,2) by (smt (verit) of_int_1_le_iff order_trans)
  then have pos: "0 < q" by simp
  let ?e = "max (floor_log2 q - 52) (- 1074)"
  let ?m = "round_half_even (q / pow2 ?e)"
  have fl: "0 \<le> floor_log2 q" and flq: "pow2 (floor_log2 q) \<le> q"
    using floor_log2_ge[OF q1] by simp_all
  have e: "?e = floor_log2 q - 52" using fl by simp
  have v: "of_int n \<le> (of_int ?m :: rat) * pow2 ?e"
  proof (cases "?e \<le> 0")
    case True
    let ?k = "nat (- ?e)"
    have pe: "pow2 ?e = 1 / 2 ^ ?k" using True by (rule pow2_nonpos)
    have "(of_int (n * 2 ^ ?k) :: rat) = of_int n * 2 ^ ?k" by simp
    also have "\<dots> \<le> q * 2 ^ ?k" using assms(2) by simp
    also have "\<dots> = q / pow2 ?e" by (simp add: pe)
    finally have "n * 2 ^ ?k \<le> ?m" by (rule round_half_even_ge)
    then have "(of_int (n * 2 ^ ?k) :: rat) \<le> of_int ?m" by (simp only: of_int_le_iff)
    then show ?thesis by (simp add: pe pos_le_divide_eq)
  next
    case False
    then have epos: "1 \<le> ?e" by simp
    have "52 + ?e = floor_log2 q" using e by simp
    then have "pow2 52 * pow2 ?e = pow2 (floor_log2 q)"
      by (simp only: pow2_add[symmetric])
    then have "pow2 52 * pow2 ?e \<le> q" using flq by simp
    then have "pow2 52 \<le> q / pow2 ?e" using pow2_pos[of ?e] by (simp add: pos_le_divide_eq)
    then have "of_int (2 ^ 52) \<le> q / pow2 ?e" by (simp add: pow2_def)
    then have "2 ^ 52 \<le> ?m" by (rule round_half_even_ge)
    then have m: "(of_int (2 ^ 52) :: rat) \<le> of_int ?m" by (simp only: of_int_le_iff)
    have "pow2 1 \<le> pow2 ?e" using epos by (rule pow2_mono)
    then have p: "2 \<le> pow2 ?e" by (simp add: pow2_def)
    have "(of_int n :: rat) < of_int (2 ^ 53)" using assms(3) by (simp only: of_int_less_iff)
    also have "(of_int (2 ^ 53) :: rat) = of_int (2 ^ 52) * 2" by simp
    also have "\<dots> \<le> of_int ?m * pow2 ?e"
      using m p by (intro mult_mono) simp_all
    finally show ?thesis by simp
  qed
  show ?thesis using v by (simp add: to_double_pos[OF pos])
qed

lemma to_double_near:
  assumes "0 < q" and "q < 64"
  shows "\<exists>v. to_double q = Finite v \<and> 0 \<le> v \<and> v \<le> q + pow2 (- 48)"
proof -
  let ?e = "max (floor_log2 q - 52) (- 1074)"
  let ?m = "round_half_even (q / pow2 ?e)"
  have "q < 2 ^ 6" using assms(2) by simp
  then have "floor_log2 q < 6" using floor_log2_less[OF assms(1), of 6] by simp
  then have e: "?e \<le> - 47" by simp
  have "(of_int ?m :: rat) \<le> q / pow2 ?e + 1 / 2" by (rule round_half_even_upper)
  then have "(of_int ?m :: rat) * pow2 ?e \<le> (q / pow2 ?e + 1 / 2) * pow2 ?e"
    using pow2_pos[of ?e] by (simp only: mult_le_cancel_right_pos)
  also have "\<dots> = q + pow2 ?e / 2" using pow2_pos[of ?e] by (simp add: algebra_simps)
  also have "pow2 ?e / 2 \<le> pow2 (- 47) / 2" using pow2_mono[OF e] by simp
  also have "pow2 (- 47) / 2 = pow2 (- 48)" by (simp add: pow2_def)
  finally have hi: "(of_int ?m :: rat) * pow2 ?e \<le> q + pow2 (- 48)" by simp
  have "of_int 0 \<le> q / pow2 ?e" using assms(1) pow2_pos[of ?e] by simp
  then have "0 \<le> ?m" by (rule round_half_even_ge)
  then have lo: "0 \<le> (of_int ?m :: rat) * pow2 ?e" using pow2_pos[of ?e] by simp
  have "q + pow2 (- 48) < 2 ^ 1024"
  proof -
    have "q + pow2 (- 48) < (2 ^ 7 :: rat)" using assms(2) by (simp add: pow2_def)
    also have "(2 ^ 7 :: rat) \<le> 2 ^ 1024" by (rule power_increasing) simp_all
    finally show ?thesis .
  qed
  then have "\<not> pow2 1024 \<le> (of_int ?m :: rat) * pow2 ?e" using hi by (simp add: pow2_def)
  then show ?thesis using hi lo by (simp add: to_double_pos[OF assms(1)])
qed

lemma to_double_of_int:
  assumes "0 \<le> n" and "n < 2 ^ 53"
  shows "to_double (of_int n) = Finite (of_int n)"
proof (cases "n = 0")
  case True
  then show ?thesis by (simp add: to_double_0)
next
  case False
  then have n1: "1 \<le> n" using assms(1) by simp
  have "of_int n \<le> (of_int n :: rat)" by simp
  from to_double_lower[OF n1 this assms(2)]
  have lo: "fle (Finite (of_int n)) (to_double (of_int n))" .
  have "(0::rat) \<le> of_int n" using assms(1) by simp
  then have "\<exists>v. to_double (of_int n) = Finite v \<and> 0 \<le> v \<and> v \<le> of_int n"
    using assms(2) by (intro to_double_upper) simp_all
  then obtain v where "to_double (of_int n) = Finite v" and "v \<le> of_int n" by auto
  then show ?thesis using lo by simp
qed

lemma to_double_numeral:
  "(numeral k :: int) < 2 ^ 53 \<Longrightarrow> to_double (numeral k) = Finite (numeral k)"
  using to_double_of_int[of "numeral k"] by simp

lemma round_half_even_numeral: "round_half_even (numeral k) = numeral k"
  using round_half_even_of_int[of "numeral k"] by simp

lemma to_double_below_40:
  assumes "q \<le> 3999 / 100"
  shows "\<not> fle (Finite 40) (to_double q)"
proof (cases "q \<le> 0")
  case True
  from to_double_nonpos[OF this] show ?thesis by auto
next
  case False
  then have pos: "0 < q" by simp
  have "q < 64" using assms by simp
  from to_double_near[OF pos this]
  obtain v where v: "to_double q = Finite v" and hi: "v \<le> q + pow2 (- 48)" by auto
  have "pow2 (- 48) < 1 / 100" by (simp add: pow2_def)
  then have "v < 40" using hi assms by simp
  then show ?thesis using v by simp
qed

lemma py_round2_ge_40:
  assumes "fle (Finite 40) y"
  shows "fle (Finite 40) (py_round2 y)"
proof (cases y)
  case (Finite v)
  then have "40 \<le> v" using assms by simp
  then have "of_int 4000 \<le> v * 100" by simp
  then have "4000 \<le> round_half_even (v * 100)" by (rule round_half_even_ge)
  then have "(of_int 4000 :: rat) \<le> of_int (round_half_even (v * 100))"
    by (simp only: of_int_le_iff)
  then have "of_int 40 \<le> (of_int (round_half_even (v * 100)) :: rat) / 100" by simp
  then have "fle (Finite (of_int 40)) (to_double (of_int (round_half_even (v * 100)) / 100))"
    by (intro to_double_lower) simp_all
  then show ?thesis using Finite by simp
qed (use assms in simp_all)

lemma py_round2_lt_40:
  assumes "\<not> fle (Finite 40) (py_round2 x)"
  shows "\<not> fle (Finite 40) (py_round2 (py_round2 x))"
proof (cases x)
  case (Finite q)
  let ?d = "round_half_even (q * 100)"
  let ?r = "(of_int ?d :: rat) / 100"
  have y: "py_round2 x = to_double ?r" using Finite by simp
  have d: "?d \<le> 3999"
  proof (rule ccontr)
    assume "\<not> ?d \<le> 3999"
    then have "4000 \<le> ?d" by simp
    then have "(of_int 4000 :: rat) \<le> of_int ?d" by (simp only: of_int_le_iff)
    then have "of_int 40 \<le> ?r" by simp
    then have "fle (Finite (of_int 40)) (to_double ?r)" by (intro to_double_lower) simp_all
    then show False using assms y by simp
  qed
  have below: "\<not> fle (Finite 40) (py_round2 (Finite v))" if "round_half_even (v * 100) \<le> 3999" for v
  proof -
    have "(of_int (round_half_even (v * 100)) :: rat) \<le> of_int 3999"
      using that by (simp only: of_int_le_iff)
    then have "(of_int (round_half_even (v * 100)) :: rat) / 100 \<le> 3999 / 100" by simp
    then show ?thesis using to_double_below_40 by simp
  qed
  show ?thesis
  proof (cases "?d \<le> 0")
    case True
    then have "(of_int ?d :: rat) \<le> of_int 0" by (simp only: of_int_le_iff)
    then have "?r \<le> 0" by simp
    from to_double_nonpos[OF this] show ?thesis
    proof
      assume "to_double ?r = NegInf"
      then show ?thesis using y by simp
    next
      assume "\<exists>v. to_double ?r = Finite v \<and> v \<le> 0"
      then obtain v where v: "to_double ?r = Finite v" and "v \<le> 0" by auto
      then have "v * 100 \<le> of_int 0" by simp
      then have "round_half_even (v * 100) \<le> 0" by (rule round_half_even_le)
      then have "round_half_even (v * 100) \<le> 3999" by simp
      then show ?thesis using below y v by simp
    qed
  next
    case False
    then have "1 \<le> ?d" by simp
    then have "(of_int 1 :: rat) \<le> of_int ?d" by (simp only: of_int_le_iff)
    then have pos: "0 < ?r" by simp
    have "(of_int ?d :: rat) \<le> of_int 3999" using d by (simp only: of_int_le_iff)
    then have "?r < 64" by simp
    from to_double_near[OF pos this]
    obtain v where v: "to_double ?r = Finite v" and hi: "v \<le> ?r + pow2 (- 48)" by auto
    have "pow2 (- 48) * 100 < 1 / 2" by (simp add: pow2_def)
    moreover have "v * 100 \<le> of_int ?d + pow2 (- 48) * 100" using hi by simp
    ultimately have "v * 100 < of_int ?d + 1 / 2" by simp
    then have "round_half_even (v * 100) \<le> ?d" by (rule round_half_even_le_near)
    then have "round_half_even (v * 100) \<le> 3999" using d by simp
    then show ?thesis using below y v by simp
  qed
qed (use assms in simp_all)

lemma py_round2_pass:
  "fle (Finite 40) (py_round2 (py_round2 x)) = fle (Finite 40) (py_round2 x)"
  using py_round2_ge_40[of "py_round2 x"] py_round2_lt_40[of x] by blast

lemma py_round2_range:
  assumes "fle (Finite 0) y" and "fle y (Finite 100)"
  shows "fle (Finite 0) (py_round2 y) \<and> fle (py_round2 y) (Finite 100)"
proof (cases y)
  case (Finite v)
  then have v: "0 \<le> v" "v \<le> 100" using assms by simp_all
  have "of_int 0 \<le> v * 100" using v by simp
  then have lo: "0 \<le> round_half_even (v * 100)" by (rule round_half_even_ge)
  have "v * 100 \<le> of_int 10000" using v by simp
  then have "round_half_even (v * 100) \<le> 10000" by (rule round_half_even_le)
  then have "(of_int (round_half_even (v * 100)) :: rat) \<le> of_int 10000"
    by (simp only: of_int_le_iff)
  then have hi: "(of_int (round_half_even (v * 100)) :: rat) / 100 \<le> of_int 100" by simp
  have "(0::rat) \<le> of_int (round_half_even (v * 100)) / 100" using lo by simp
  from to_double_upper[OF this hi] show ?thesis using Finite by auto
qed (use assms in simp_all)

lemma percentage_range:
  assumes "0 \<le> a" and "fle (Finite a) m" and "fless (Finite 0) m"
  shows "fle (Finite 0) (fmul (fdiv (Finite a) m) (Finite 100)) \<and>
         fle (fmul (fdiv (Finite a) m) (Finite 100)) (Finite 100)"
proof (cases m)
  case (Finite b)
  then have b: "0 < b" "a \<le> b" using assms by simp_all
  have "0 \<le> a / b" using assms(1) b by simp
  moreover have "a / b \<le> of_int 1" using b by simp
  ultimately have "\<exists>v. to_double (a / b) = Finite v \<and> 0 \<le> v \<and> v \<le> of_int 1"
    by (intro to_double_upper) simp_all
  then obtain v where v: "to_double (a / b) = Finite v" "0 \<le> v" "v \<le> 1" by auto
  have "0 \<le> v * 100" "v * 100 \<le> of_int 100" using v by simp_all
  then have "\<exists>w. to_double (v * 100) = Finite w \<and> 0 \<le> w \<and> w \<le> of_int 100"
    by (intro to_double_upper) simp_all
  then show ?thesis using Finite b v by auto
next
  case PosInf
  then show ?thesis by (simp add: to_double_0)
qed (use assms in simp_all)

lemma py_round2_0: "py_round2 (Finite 0) = Finite 0"
  by (simp add: round_half_even_def to_double_0)

lemma int_to_double_length: "rows \<noteq> [] \<Longrightarrow> int_to_double (int (length rows)) \<noteq> Finite 0"
proof -
  assume "rows \<noteq> []"
  then have "1 \<le> int (length rows)" by (cases rows) simp_all
  then have "(of_int 1 :: rat) \<le> of_int (int (length rows))" by (simp only: of_int_le_iff)
  then have "fle (Finite (of_int 1)) (to_double (of_int (int (length rows))))"
    by (intro to_double_lower) simp_all
  then show ?thesis by (auto simp: int_to_double_def)
qed

lemma py_truediv_length:
  "rows \<noteq> [] \<Longrightarrow>
     py_truediv a (int_to_double (int (length rows))) =
       Some (fdiv a (int_to_double (int (length rows))))"
  by (simp add: py_truediv_def int_to_double_length)

lemma py_truediv_positive:
  "fless (Finite 0) m \<Longrightarrow> py_truediv a m = Some (fdiv a m)"
  by (auto simp: py_truediv_def)

lemma to_double_1: "to_double 1 = Finite 1"
  using to_double_of_int[of 1] by simp

lemma to_double_halves:
  "to_double (1 / 2) = Finite (1 / 2)"
  "to_double (3 / 2) = Finite (3 / 2)"
  by (simp_all add: to_double_def floor_log2_def pow2_def round_half_even_def Let_def
        compute_bitlen)

declare py_round2.simps [simp del]

lemmas float_eval =
  py_round2.simps to_double_0 to_double_1 to_double_numeral to_double_halves
  round_half_even_numeral int_to_double_def py_truediv_def sequential_sum_def

section \<open>Facts about the dictionaries\<close>

lemma dict_of_distinct:
  "distinct (map fst kvs) \<Longrightarrow> (k, v) \<in> set kvs \<Longrightarrow> dict_of kvs k = Some v"
  by (simp add: dict_of_def rev_map[symmetric])

lemma dict_of_snoc: "dict_of (kvs @ [(k, v)]) = (dict_of kvs)(k \<mapsto> v)"
  by (simp add: dict_of_def fun_eq_iff)

lemma dict_of_defined: "k \<in> fst ` set kvs \<Longrightarrow> dict_of kvs k \<noteq> None"
  by (simp add: dict_of_def map_of_eq_None_iff)

lemma dict_of_answers:
  "dict_of (map (\<lambda>a. (sa_question_id a, a)) submitted) q = spec_submitted_answer submitted q"
proof (induction submitted rule: rev_induct)
  case Nil
  show ?case by (simp add: dict_of_def spec_submitted_answer_def)
next
  case (snoc a as)
  show ?case
  proof (cases "sa_question_id a = q")
    case True
    then show ?thesis
      by (simp add: dict_of_snoc spec_submitted_answer_def)
  next
    case False
    with snoc show ?thesis
      by (simp add: dict_of_snoc spec_submitted_answer_def)
  qed
qed

section \<open>The scoring loop\<close>

lemma score_loop_sum:
  assumes "\<forall>row \<in> set rows. question_marks (eq_question_id row) = Some (eq_marks row)"
  shows "score_loop question_marks answered rows (c, m) =
           Inr (c + int (length (filter (\<lambda>row. case answered (eq_question_id row) of
                                               None \<Rightarrow> False | Some a \<Rightarrow> sa_is_correct a) rows)),
                fold (\<lambda>row total. fadd total (eq_marks row))
                  (filter (\<lambda>row. case answered (eq_question_id row) of
                                   None \<Rightarrow> False | Some a \<Rightarrow> sa_is_correct a) rows) m)"
  using assms
  by (induction rows arbitrary: c m) (auto split: option.splits)

lemma score_loop_total:
  assumes "\<forall>row \<in> set rows. question_marks (eq_question_id row) \<noteq> None"
  shows "\<exists>c m. score_loop question_marks answered rows acc = Inr (c, m)"
  using assms
proof (induction rows arbitrary: acc)
  case Nil
  show ?case by (cases acc) simp
next
  case (Cons row rows)
  then show ?case by (cases acc) (auto split: option.splits)
qed

lemma score_loop_exam_questions:
  "\<exists>c m. score_loop (dict_of (map (\<lambda>q. (eq_question_id q, eq_marks q)) rows)) answered rows
           (0, Finite 0) = Inr (c, m)"
proof (rule score_loop_total)
  show "\<forall>row\<in>set rows. dict_of (map (\<lambda>q. (eq_question_id q, eq_marks q)) rows) (eq_question_id row) \<noteq> None"
  proof
    fix row assume "row \<in> set rows"
    then have "eq_question_id row \<in> fst ` set (map (\<lambda>q. (eq_question_id q, eq_marks q)) rows)"
      by force
    then show "dict_of (map (\<lambda>q. (eq_question_id q, eq_marks q)) rows) (eq_question_id row) \<noteq> None"
      by (rule dict_of_defined)
  qed
qed

section \<open>Lookups after an update\<close>

lemma find_update_first:
  assumes "\<And>x. P (f x) = P x"
  shows "find P (update_first P f xs) = map_option f (find P xs)"
  using assms by (induction xs) auto

lemma find_update_first_other:
  assumes "\<And>x. Q (f x) = Q x" and "\<And>x. Q x \<Longrightarrow> \<not> P x"
  shows "find Q (update_first P f xs) = find Q xs"
  using assms by (induction xs) auto




section \<open>Evaluating the example databases\<close>

lemmas eval_defs =
  create_student_exam_route_def create_student_exam_def
  get_exam_def active_subscription_query_def subscription_of_def max_exams_or_1_def
  next_id_def create_or_update_exam_attempt_def get_exam_attempt_def
  start_student_exam_route_def start_student_exam_def get_student_exam_def
  create_student_answer_route_def create_student_answer_def
  complete_student_exam_route_def complete_student_exam_def get_student_answers_def
  get_exam_questions_def get_exam_results_def dict_of_def create_exam_result_def
  float_eval Let_def

section \<open>Completing a session\<close>

text \<open>
  The result of a completion in terms of what the scoring loop returned: the divisions
  do not raise, and the row holds the percentage, the obtained marks and the maximum
  each rounded a second time by \<open>create_exam_result\<close>.
\<close>

lemma complete_student_exam_unfold:
  assumes se: "get_student_exam d sid = Some se"
      and ex: "get_exam d (se_exam_id se) = Some ex"
      and loop: "score_loop
                   (dict_of (map (\<lambda>q. (eq_question_id q, eq_marks q)) (get_exam_questions d (e_id ex))))
                   (dict_of (map (\<lambda>a. (sa_question_id a, a)) (get_student_answers d sid)))
                   (get_exam_questions d (e_id ex)) (0, Finite 0) = Inr (c, m)"
  shows "complete_student_exam py_sum d sid =
           (d\<lparr>exam_results := exam_results d @
                [\<lparr>er_student_exam_id = sid,
                  er_attempt_number =
                    (case latest_result (get_exam_results d sid) of
                       Some latest \<Rightarrow> er_attempt_number latest + 1 | None \<Rightarrow> 1),
                  er_total_questions = e_max_questions ex,
                  er_correct_answers = c,
                  er_score_percentage =
                    py_round2 (spec_score_percentage m
                      (spec_max_marks_for_attempt py_sum (get_exam_questions d (e_id ex))
                         (e_max_questions ex))),
                  er_obtained_marks = py_round2 (py_round2 m),
                  er_max_marks =
                    py_round2 (py_round2
                      (spec_max_marks_for_attempt py_sum (get_exam_questions d (e_id ex))
                         (e_max_questions ex))),
                  er_passed_status =
                    spec_passed (spec_score_percentage m
                      (spec_max_marks_for_attempt py_sum (get_exam_questions d (e_id ex))
                         (e_max_questions ex)))\<rparr>],
              student_exams := update_first (\<lambda>s. se_id s = sid) (\<lambda>s. s\<lparr>se_status := completed\<rparr>)
                                 (student_exams d)\<rparr>,
            Inr (se\<lparr>se_status := completed\<rparr>))"
proof -
  let ?rows = "get_exam_questions d (e_id ex)"
  let ?max = "spec_max_marks_for_attempt py_sum ?rows (e_max_questions ex)"
  have avg: "(if ?rows \<noteq> []
              then py_truediv (py_sum (map eq_marks ?rows)) (int_to_double (int (length ?rows)))
              else Some (Finite 0)) = Some (spec_average_mark_per_question py_sum ?rows)"
    by (simp add: spec_average_mark_per_question_def py_truediv_length)
  have pct: "(if fless (Finite 0) ?max
              then map_option (\<lambda>quotient. fmul quotient (Finite 100)) (py_truediv m ?max)
              else Some (Finite 0)) =
             Some (if fless (Finite 0) ?max then fmul (fdiv m ?max) (Finite 100) else Finite 0)"
    by (simp add: py_truediv_positive)
  have rounded: "py_round2 (if fless (Finite 0) ?max then fmul (fdiv m ?max) (Finite 100) else Finite 0) =
                 spec_score_percentage m ?max"
    by (simp add: spec_score_percentage_def py_round2_0)
  show ?thesis
    unfolding complete_student_exam_def
    by (simp add: se ex Let_def avg loop create_exam_result_def spec_passed_def
          pct[unfolded spec_max_marks_for_attempt_def] rounded[unfolded spec_max_marks_for_attempt_def]
          spec_max_marks_for_attempt_def)
qed

lemma score_loop_spec:
  assumes dist: "distinct (map eq_question_id rows)"
  shows "score_loop (dict_of (map (\<lambda>q. (eq_question_id q, eq_marks q)) rows))
           (dict_of (map (\<lambda>a. (sa_question_id a, a)) submitted)) rows (0, Finite 0) =
         Inr (spec_correct_answers rows submitted, spec_obtained_marks rows submitted)"
proof -
  let ?qm = "dict_of (map (\<lambda>q. (eq_question_id q, eq_marks q)) rows)"
  let ?aq = "dict_of (map (\<lambda>a. (sa_question_id a, a)) submitted)"
  have "\<forall>row \<in> set rows. ?qm (eq_question_id row) = Some (eq_marks row)"
  proof
    fix row assume "row \<in> set rows"
    then have "(eq_question_id row, eq_marks row) \<in> set (map (\<lambda>q. (eq_question_id q, eq_marks q)) rows)"
      by force
    moreover have "distinct (map fst (map (\<lambda>q. (eq_question_id q, eq_marks q)) rows))"
      using dist by (simp add: comp_def)
    ultimately show "?qm (eq_question_id row) = Some (eq_marks row)"
      by (rule dict_of_distinct[rotated])
  qed
  from score_loop_sum[OF this, of ?aq 0 "Finite 0"] show ?thesis
    by (simp add: spec_correct_answers_def spec_obtained_marks_def spec_answered_correctly_def
          dict_of_answers cong: filter_cong)
qed

text \<open>
  C1, the claim as stated, fails for an exam that lists a question twice. The marks are
  looked up by question id in a dictionary, which keeps the marks of the last row of a
  question: with rows worth 10 and 30 marks for question 5, answered correctly, the loop
  adds 30 for each of the two rows. The result row holds 60 obtained marks and 150
  percent, where the formula of the claim (the configured marks of each exam-question
  whose submitted answer is correct, over the maximum of 40) gives 40 marks and 100
  percent.
\<close>

theorem duplicate_question_scoring_counterexample:
  "exam_results (fst (complete_student_exam sequential_sum duplicate_question_db 1)) =
     [\<lparr>er_student_exam_id = 1, er_attempt_number = 1, er_total_questions = 2,
       er_correct_answers = 2, er_score_percentage = Finite 150, er_obtained_marks = Finite 60,
       er_max_marks = Finite 40, er_passed_status = True\<rparr>] \<and>
   spec_obtained_marks (get_exam_questions duplicate_question_db 1)
     (get_student_answers duplicate_question_db 1) = Finite 40 \<and>
   spec_max_marks_for_attempt sequential_sum (get_exam_questions duplicate_question_db 1) 2 =
     Finite 40 \<and>
   spec_score_percentage (Finite 40) (Finite 40) = Finite 100"
  by (simp add: duplicate_question_db_def eval_defs spec_obtained_marks_def
        spec_answered_correctly_def spec_submitted_answer_def spec_max_marks_for_attempt_def
        spec_average_mark_per_question_def spec_score_percentage_def)

text \<open>
  C1, amended. For a session whose exam exists and lists each question once, completing
  the session succeeds and appends the result row the formula gives, computed in
  \<open>float\<close> arithmetic: the average mark per question is the sum of the exam-question marks
  over their number (zero without rows), the maximum for the attempt is that average
  times \<open>max_questions\<close>, the obtained marks and the count of correct answers run over the
  exam-questions whose submitted answer is correct, the percentage is the quotient times
  100 rounded to two decimals when the maximum is positive and 0 otherwise, and the
  session has passed exactly when that percentage is at least 40. The row stores the
  percentage, the obtained marks and the maximum after \<open>create_exam_result\<close> has rounded
  each of them to two decimals once more.
\<close>

theorem complete_student_exam_scoring:
  assumes se: "get_student_exam d sid = Some se"
      and ex: "get_exam d (se_exam_id se) = Some ex"
      and dist: "distinct (map eq_question_id (get_exam_questions d (e_id ex)))"
  shows "snd (complete_student_exam py_sum d sid) = Inr (se\<lparr>se_status := completed\<rparr>) \<and>
         exam_results (fst (complete_student_exam py_sum d sid)) =
           exam_results d @
           [\<lparr>er_student_exam_id = sid,
             er_attempt_number =
               (case latest_result (get_exam_results d sid) of
                  Some latest \<Rightarrow> er_attempt_number latest + 1 | None \<Rightarrow> 1),
             er_total_questions = e_max_questions ex,
             er_correct_answers =
               spec_correct_answers (get_exam_questions d (e_id ex)) (get_student_answers d sid),
             er_score_percentage =
               py_round2 (spec_score_percentage
                 (spec_obtained_marks (get_exam_questions d (e_id ex)) (get_student_answers d sid))
                 (spec_max_marks_for_attempt py_sum (get_exam_questions d (e_id ex))
                    (e_max_questions ex))),
             er_obtained_marks =
               py_round2 (py_round2
                 (spec_obtained_marks (get_exam_questions d (e_id ex)) (get_student_answers d sid))),
             er_max_marks =
               py_round2 (py_round2
                 (spec_max_marks_for_attempt py_sum (get_exam_questions d (e_id ex))
                    (e_max_questions ex))),
             er_passed_status =
               spec_passed (spec_score_percentage
                 (spec_obtained_marks (get_exam_questions d (e_id ex)) (get_student_answers d sid))
                 (spec_max_marks_for_attempt py_sum (get_exam_questions d (e_id ex))
                    (e_max_questions ex)))\<rparr>]"
  by (simp add: complete_student_exam_unfold[OF se ex score_loop_spec[OF dist]])

text \<open>
  The scenario of the claim: \<open>max_questions = 4\<close>, two exam-question rows worth 10 marks
  each, both answered correctly. The maximum for the attempt is 40, the obtained marks
  are 20 and the percentage is 50.
\<close>

theorem complete_student_exam_scoring_witness:
  "get_student_exam (two_question_db 4) 1 =
     Some \<lparr>se_id = 1, se_student_id = 7, se_exam_id = 1, se_status = in_progress\<rparr> \<and>
   get_exam (two_question_db 4) 1 =
     Some \<lparr>e_id = 1, e_start_datetime = None, e_end_datetime = None, e_max_questions = 4\<rparr> \<and>
   distinct (map eq_question_id (get_exam_questions (two_question_db 4) 1)) \<and>
   exam_results (fst (complete_student_exam sequential_sum (two_question_db 4) 1)) =
     [\<lparr>er_student_exam_id = 1, er_attempt_number = 1, er_total_questions = 4,
       er_correct_answers = 2, er_score_percentage = Finite 50, er_obtained_marks = Finite 20,
       er_max_marks = Finite 40, er_passed_status = True\<rparr>]"
proof -
  have se: "get_student_exam (two_question_db 4) 1 =
     Some \<lparr>se_id = 1, se_student_id = 7, se_exam_id = 1, se_status = in_progress\<rparr>"
    by (simp add: get_student_exam_def two_question_db_def)
  have ex: "get_exam (two_question_db 4)
              (se_exam_id \<lparr>se_id = 1, se_student_id = 7, se_exam_id = 1, se_status = in_progress\<rparr>) =
     Some \<lparr>e_id = 1, e_start_datetime = None, e_end_datetime = None, e_max_questions = 4\<rparr>"
    by (simp add: get_exam_def two_question_db_def)
  have rows: "get_exam_questions (two_question_db 4) 1 =
     [\<lparr>eq_exam_id = 1, eq_question_id = 1, eq_marks = Finite 10\<rparr>,
      \<lparr>eq_exam_id = 1, eq_question_id = 2, eq_marks = Finite 10\<rparr>]"
    by (simp add: get_exam_questions_def two_question_db_def)
  have dist: "distinct (map eq_question_id (get_exam_questions (two_question_db 4)
       (e_id \<lparr>e_id = 1, e_start_datetime = None, e_end_datetime = None, e_max_questions = 4\<rparr>)))"
    by (simp add: rows)
  have subm: "get_student_answers (two_question_db 4) 1 =
     [\<lparr>sa_student_exam_id = 1, sa_question_id = 1, sa_answer_id = Some 11, sa_is_correct = True\<rparr>,
      \<lparr>sa_student_exam_id = 1, sa_question_id = 2, sa_answer_id = Some 21, sa_is_correct = True\<rparr>]"
    by (simp add: get_student_answers_def two_question_db_def)
  have res: "get_exam_results (two_question_db 4) 1 = []"
    by (simp add: get_exam_results_def two_question_db_def)
  have none: "exam_results (two_question_db 4) = []"
    by (simp add: two_question_db_def)
  have obtained: "spec_obtained_marks (get_exam_questions (two_question_db 4) 1)
                    (get_student_answers (two_question_db 4) 1) = Finite 20"
    by (simp add: rows subm spec_obtained_marks_def spec_answered_correctly_def
          spec_submitted_answer_def float_eval)
  have correct: "spec_correct_answers (get_exam_questions (two_question_db 4) 1)
                    (get_student_answers (two_question_db 4) 1) = 2"
    by (simp add: rows subm spec_correct_answers_def spec_answered_correctly_def
          spec_submitted_answer_def)
  have maxm: "spec_max_marks_for_attempt sequential_sum (get_exam_questions (two_question_db 4) 1) 4 =
                Finite 40"
    by (simp add: rows spec_max_marks_for_attempt_def spec_average_mark_per_question_def
          float_eval)
  have r20: "py_round2 (Finite 20) = Finite 20" and r40: "py_round2 (Finite 40) = Finite 40"
    and r50: "py_round2 (Finite 50) = Finite 50"
    by (simp_all add: float_eval)
  have pct: "spec_score_percentage (Finite 20) (Finite 40) = Finite 50"
    by (simp add: spec_score_percentage_def float_eval)
  from complete_student_exam_scoring[OF se ex dist, of sequential_sum]
  have "exam_results (fst (complete_student_exam sequential_sum (two_question_db 4) 1)) =
     [\<lparr>er_student_exam_id = 1, er_attempt_number = 1, er_total_questions = 4,
       er_correct_answers = 2, er_score_percentage = Finite 50, er_obtained_marks = Finite 20,
       er_max_marks = Finite 40, er_passed_status = True\<rparr>]"
    by (simp add: res none obtained correct maxm r20 r40 r50 pct spec_passed_def)
  with se ex dist show ?thesis by simp
qed

section \<open>The example databases, evaluated\<close>

lemma scenario_created_eq:
  "scenario_created = scenario_db
     \<lparr>student_exams := [\<lparr>se_id = 1, se_student_id = 7, se_exam_id = 1, se_status = not_started\<rparr>],
      exam_attempts := [\<lparr>ea_user_subscription_id = 1, ea_exam_id = 1, ea_remaining_attempts = 2\<rparr>]\<rparr>"
  by (simp add: scenario_created_def scenario_db_def scenario_request_def eval_defs)

lemma scenario_started_eq:
  "scenario_started = scenario_db
     \<lparr>student_exams := [\<lparr>se_id = 1, se_student_id = 7, se_exam_id = 1, se_status = in_progress\<rparr>],
      exam_attempts := [\<lparr>ea_user_subscription_id = 1, ea_exam_id = 1, ea_remaining_attempts = 1\<rparr>]\<rparr>"
  by (simp add: scenario_started_def scenario_created_eq scenario_db_def eval_defs)

lemma scenario_answered_eq:
  "scenario_answered = scenario_db
     \<lparr>student_exams := [\<lparr>se_id = 1, se_student_id = 7, se_exam_id = 1, se_status = in_progress\<rparr>],
      student_answers :=
        [\<lparr>sa_student_exam_id = 1, sa_question_id = 1, sa_answer_id = Some 11, sa_is_correct = True\<rparr>,
         \<lparr>sa_student_exam_id = 1, sa_question_id = 2, sa_answer_id = Some 21, sa_is_correct = True\<rparr>],
      exam_attempts := [\<lparr>ea_user_subscription_id = 1, ea_exam_id = 1, ea_remaining_attempts = 1\<rparr>]\<rparr>"
  by (simp add: scenario_answered_def scenario_started_eq scenario_db_def eval_defs)

lemma scenario_completed_eq:
  "scenario_completed = scenario_db
     \<lparr>student_exams := [\<lparr>se_id = 1, se_student_id = 7, se_exam_id = 1, se_status = completed\<rparr>],
      student_answers :=
        [\<lparr>sa_student_exam_id = 1, sa_question_id = 1, sa_answer_id = Some 11, sa_is_correct = True\<rparr>,
         \<lparr>sa_student_exam_id = 1, sa_question_id = 2, sa_answer_id = Some 21, sa_is_correct = True\<rparr>],
      exam_results :=
        [\<lparr>er_student_exam_id = 1, er_attempt_number = 1, er_total_questions = 2,
          er_correct_answers = 2, er_score_percentage = Finite 100, er_obtained_marks = Finite 100,
          er_max_marks = Finite 100, er_passed_status = True\<rparr>],
      exam_attempts := [\<lparr>ea_user_subscription_id = 1, ea_exam_id = 1, ea_remaining_attempts = 1\<rparr>]\<rparr>"
  by (simp add: scenario_completed_def scenario_answered_eq scenario_db_def eval_defs)

lemma scenario_restarted_eq:
  "scenario_restarted = scenario_db
     \<lparr>student_exams := [\<lparr>se_id = 1, se_student_id = 7, se_exam_id = 1, se_status = in_progress\<rparr>],
      exam_results :=
        [\<lparr>er_student_exam_id = 1, er_attempt_number = 1, er_total_questions = 2,
          er_correct_answers = 2, er_score_percentage = Finite 100, er_obtained_marks = Finite 100,
          er_max_marks = Finite 100, er_passed_status = True\<rparr>],
      exam_attempts := [\<lparr>ea_user_subscription_id = 1, ea_exam_id = 1, ea_remaining_attempts = 0\<rparr>]\<rparr>"
  by (simp add: scenario_restarted_def scenario_completed_eq scenario_db_def eval_defs)

lemma two_question_db_completed:
  "exam_results (fst (complete_student_exam sequential_sum (two_question_db 1) 1)) =
     [\<lparr>er_student_exam_id = 1, er_attempt_number = 1, er_total_questions = 1,
       er_correct_answers = 2, er_score_percentage = Finite 200, er_obtained_marks = Finite 20,
       er_max_marks = Finite 10, er_passed_status = True\<rparr>]"
  by (simp add: two_question_db_def eval_defs)

section \<open>Range of the percentage\<close>

text \<open>
  C5, the claim as stated, fails: with \<open>max_questions = 1\<close> and two exam-question rows
  worth 10 marks each, both answered correctly, the maximum for the attempt is 10, the
  obtained marks are 20 and the stored percentage is 200.
\<close>

theorem score_percentage_in_range_counterexample:
  "er_score_percentage
     (last (exam_results (fst (complete_student_exam sequential_sum (two_question_db 1) 1)))) =
     Finite 200 \<and>
   \<not> fle (er_score_percentage
            (last (exam_results (fst (complete_student_exam sequential_sum (two_question_db 1) 1)))))
          (Finite 100)"
  by (simp add: two_question_db_completed)

text \<open>
  C5, amended. Every result row a completion writes has \<open>passed\<close> true exactly when its
  stored percentage is at least 40. The code does not clamp the percentage: it lies
  between 0 and 100 when the exam lists each question once and the obtained marks, as
  accumulated in \<open>float\<close> arithmetic, are a finite number that is not negative and not
  above the maximum for the attempt (the average mark times \<open>max_questions\<close>); otherwise
  it can exceed 100 or be not-a-number.
\<close>

theorem complete_student_exam_score_bounds:
  assumes se: "get_student_exam d sid = Some se"
      and ex: "get_exam d (se_exam_id se) = Some ex"
  shows "er_passed_status (last (exam_results (fst (complete_student_exam py_sum d sid)))) =
           fle (Finite 40)
             (er_score_percentage (last (exam_results (fst (complete_student_exam py_sum d sid))))) \<and>
         (distinct (map eq_question_id (get_exam_questions d (e_id ex))) \<and>
          spec_obtained_marks (get_exam_questions d (e_id ex)) (get_student_answers d sid) =
            Finite obtained \<and>
          0 \<le> obtained \<and>
          fle (Finite obtained)
            (spec_max_marks_for_attempt py_sum (get_exam_questions d (e_id ex)) (e_max_questions ex)) \<longrightarrow>
          fle (Finite 0)
            (er_score_percentage (last (exam_results (fst (complete_student_exam py_sum d sid))))) \<and>
          fle (er_score_percentage (last (exam_results (fst (complete_student_exam py_sum d sid)))))
            (Finite 100))"
proof -
  let ?r = "last (exam_results (fst (complete_student_exam py_sum d sid)))"
  let ?rows = "get_exam_questions d (e_id ex)"
  let ?max = "spec_max_marks_for_attempt py_sum ?rows (e_max_questions ex)"
  obtain c m where loop:
    "score_loop (dict_of (map (\<lambda>q. (eq_question_id q, eq_marks q)) ?rows))
       (dict_of (map (\<lambda>a. (sa_question_id a, a)) (get_student_answers d sid)))
       ?rows (0, Finite 0) = Inr (c, m)"
    using score_loop_exam_questions by blast
  have passed: "er_passed_status ?r = fle (Finite 40) (er_score_percentage ?r)"
  proof (cases "fless (Finite 0) ?max")
    case True
    then show ?thesis
      by (simp add: complete_student_exam_unfold[OF se ex loop] spec_passed_def
            spec_score_percentage_def py_round2_pass)
  next
    case False
    then show ?thesis
      by (simp add: complete_student_exam_unfold[OF se ex loop] spec_passed_def
            spec_score_percentage_def py_round2_0)
  qed
  have range: "fle (Finite 0) (er_score_percentage ?r) \<and> fle (er_score_percentage ?r) (Finite 100)"
    if dist: "distinct (map eq_question_id ?rows)"
      and obtained: "spec_obtained_marks ?rows (get_student_answers d sid) = Finite obtained"
      and nonneg: "0 \<le> obtained"
      and below: "fle (Finite obtained) ?max"
  proof -
    have pct: "er_score_percentage ?r = py_round2 (spec_score_percentage (Finite obtained) ?max)"
      by (simp add: complete_student_exam_unfold[OF se ex score_loop_spec[OF dist]] obtained)
    show ?thesis
    proof (cases "fless (Finite 0) ?max")
      case True
      from percentage_range[OF nonneg below True]
      have "fle (Finite 0) (py_round2 (fmul (fdiv (Finite obtained) ?max) (Finite 100))) \<and>
            fle (py_round2 (fmul (fdiv (Finite obtained) ?max) (Finite 100))) (Finite 100)"
        using py_round2_range by blast
      then have "fle (Finite 0) (spec_score_percentage (Finite obtained) ?max) \<and>
                 fle (spec_score_percentage (Finite obtained) ?max) (Finite 100)"
        using True by (simp add: spec_score_percentage_def)
      then show ?thesis unfolding pct using py_round2_range by blast
    next
      case False
      then show ?thesis unfolding pct by (simp add: spec_score_percentage_def py_round2_0)
    qed
  qed
  from passed range show ?thesis by blast
qed

text \<open>
  The example: \<open>max_questions = 2\<close>, two rows worth 10 marks each, both answered
  correctly. The obtained marks are 20, the maximum for the attempt is 20, and the
  percentage is 100.
\<close>

theorem complete_student_exam_score_bounds_witness:
  "get_student_exam (two_question_db 2) 1 =
     Some \<lparr>se_id = 1, se_student_id = 7, se_exam_id = 1, se_status = in_progress\<rparr> \<and>
   get_exam (two_question_db 2) 1 =
     Some \<lparr>e_id = 1, e_start_datetime = None, e_end_datetime = None, e_max_questions = 2\<rparr> \<and>
   distinct (map eq_question_id (get_exam_questions (two_question_db 2) 1)) \<and>
   spec_obtained_marks (get_exam_questions (two_question_db 2) 1)
     (get_student_answers (two_question_db 2) 1) = Finite 20 \<and>
   spec_max_marks_for_attempt sequential_sum (get_exam_questions (two_question_db 2) 1) 2 =
     Finite 20 \<and>
   er_passed_status
     (last (exam_results (fst (complete_student_exam sequential_sum (two_question_db 2) 1)))) =
     fle (Finite 40)
       (er_score_percentage
          (last (exam_results (fst (complete_student_exam sequential_sum (two_question_db 2) 1))))) \<and>
   fle (Finite 0)
     (er_score_percentage
        (last (exam_results (fst (complete_student_exam sequential_sum (two_question_db 2) 1))))) \<and>
   fle (er_score_percentage
          (last (exam_results (fst (complete_student_exam sequential_sum (two_question_db 2) 1)))))
     (Finite 100)"
proof -
  have se: "get_student_exam (two_question_db 2) 1 =
     Some \<lparr>se_id = 1, se_student_id = 7, se_exam_id = 1, se_status = in_progress\<rparr>"
    by (simp add: get_student_exam_def two_question_db_def)
  have ex: "get_exam (two_question_db 2)
              (se_exam_id \<lparr>se_id = 1, se_student_id = 7, se_exam_id = 1, se_status = in_progress\<rparr>) =
     Some \<lparr>e_id = 1, e_start_datetime = None, e_end_datetime = None, e_max_questions = 2\<rparr>"
    by (simp add: get_exam_def two_question_db_def)
  have rows: "get_exam_questions (two_question_db 2) 1 =
     [\<lparr>eq_exam_id = 1, eq_question_id = 1, eq_marks = Finite 10\<rparr>,
      \<lparr>eq_exam_id = 1, eq_question_id = 2, eq_marks = Finite 10\<rparr>]"
    by (simp add: get_exam_questions_def two_question_db_def)
  have subm: "get_student_answers (two_question_db 2) 1 =
     [\<lparr>sa_student_exam_id = 1, sa_question_id = 1, sa_answer_id = Some 11, sa_is_correct = True\<rparr>,
      \<lparr>sa_student_exam_id = 1, sa_question_id = 2, sa_answer_id = Some 21, sa_is_correct = True\<rparr>]"
    by (simp add: get_student_answers_def two_question_db_def)
  have obtained: "spec_obtained_marks (get_exam_questions (two_question_db 2) 1)
                    (get_student_answers (two_question_db 2) 1) = Finite 20"
    by (simp add: rows subm spec_obtained_marks_def spec_answered_correctly_def
          spec_submitted_answer_def float_eval)
  have maxm: "spec_max_marks_for_attempt sequential_sum (get_exam_questions (two_question_db 2) 1) 2 =
                Finite 20"
    by (simp add: rows spec_max_marks_for_attempt_def spec_average_mark_per_question_def
          float_eval)
  have dist: "distinct (map eq_question_id (get_exam_questions (two_question_db 2) 1))"
    by (simp add: rows)
  from complete_student_exam_score_bounds[OF se ex, of sequential_sum 20] se ex dist
  show ?thesis
    by (simp add: obtained maxm)
qed

section \<open>Attempt numbers and the status after completion\<close>



lemma find_update_first_status:
  "find (\<lambda>s. se_id s = sid) (update_first (\<lambda>s. se_id s = sid) (se_status_update f) rows) =
     map_option (se_status_update f) (find (\<lambda>s. se_id s = sid) rows)"
  by (rule find_update_first) simp

text \<open>
  C8, the claim as stated, fails: the session the create endpoint has just created is in
  status \<open>not_started\<close>, and the complete endpoint applied to it succeeds and leaves it in
  status \<open>completed\<close>.
\<close>

theorem not_started_to_completed_counterexample:
  "get_student_exam scenario_created 1 =
     Some \<lparr>se_id = 1, se_student_id = 7, se_exam_id = 1, se_status = not_started\<rparr> \<and>
   snd (complete_student_exam_route sequential_sum scenario_created 7 1) =
     Inr \<lparr>se_id = 1, se_student_id = 7, se_exam_id = 1, se_status = completed\<rparr> \<and>
   get_student_exam (fst (complete_student_exam_route sequential_sum scenario_created 7 1)) 1 =
     Some \<lparr>se_id = 1, se_student_id = 7, se_exam_id = 1, se_status = completed\<rparr>"
  by (simp add: scenario_created_eq scenario_db_def eval_defs)

text \<open>
  C8, amended. Completion does not read the status of the session: for every session
  whose exam exists, whatever its status (\<open>not_started\<close>, \<open>in_progress\<close> or \<open>completed\<close>), the
  complete endpoint called by its student succeeds, appends one result row for the
  session and leaves the session in status \<open>completed\<close>. A session can therefore go from
  \<open>not_started\<close> directly to \<open>completed\<close>.
\<close>

theorem complete_student_exam_route_any_status:
  assumes se: "get_student_exam d sid = Some se"
      and ex: "get_exam d (se_exam_id se) = Some ex"
      and user: "se_student_id se = current_user"
  shows "snd (complete_student_exam_route py_sum d current_user sid) = Inr (se\<lparr>se_status := completed\<rparr>) \<and>
         get_student_exam (fst (complete_student_exam_route py_sum d current_user sid)) sid =
           Some (se\<lparr>se_status := completed\<rparr>) \<and>
         exam_results (fst (complete_student_exam_route py_sum d current_user sid)) =
           exam_results d @
           [last (exam_results (fst (complete_student_exam_route py_sum d current_user sid)))] \<and>
         er_student_exam_id
           (last (exam_results (fst (complete_student_exam_route py_sum d current_user sid)))) = sid"
proof -
  obtain c m where loop:
    "score_loop (dict_of (map (\<lambda>q. (eq_question_id q, eq_marks q)) (get_exam_questions d (e_id ex))))
       (dict_of (map (\<lambda>a. (sa_question_id a, a)) (get_student_answers d sid)))
       (get_exam_questions d (e_id ex)) (0, Finite 0) = Inr (c, m)"
    using score_loop_exam_questions by blast
  note unfold = complete_student_exam_unfold[OF se ex loop]
  have found: "find (\<lambda>s. se_id s = sid) (student_exams d) = Some se"
    using se by (simp add: get_student_exam_def)
  show ?thesis
    by (simp add: complete_student_exam_route_def se user unfold get_student_exam_def
          find_update_first_status found)
qed

text \<open>
  The example: the session of the scenario, in progress after its second start, is
  completed a second time.
\<close>

theorem complete_student_exam_route_any_status_witness:
  "get_student_exam scenario_restarted 1 =
     Some \<lparr>se_id = 1, se_student_id = 7, se_exam_id = 1, se_status = in_progress\<rparr> \<and>
   get_exam scenario_restarted 1 =
     Some \<lparr>e_id = 1, e_start_datetime = Some 0, e_end_datetime = Some 1000, e_max_questions = 2\<rparr> \<and>
   snd (complete_student_exam_route sequential_sum scenario_restarted 7 1) =
     Inr \<lparr>se_id = 1, se_student_id = 7, se_exam_id = 1, se_status = completed\<rparr> \<and>
   get_student_exam (fst (complete_student_exam_route sequential_sum scenario_restarted 7 1)) 1 =
     Some \<lparr>se_id = 1, se_student_id = 7, se_exam_id = 1, se_status = completed\<rparr> \<and>
   length (exam_results (fst (complete_student_exam_route sequential_sum scenario_restarted 7 1))) = 2 \<and>
   er_student_exam_id
     (last (exam_results (fst (complete_student_exam_route sequential_sum scenario_restarted 7 1)))) = 1"
proof -
  have se: "get_student_exam scenario_restarted 1 =
     Some \<lparr>se_id = 1, se_student_id = 7, se_exam_id = 1, se_status = in_progress\<rparr>"
    by (simp add: get_student_exam_def scenario_restarted_eq scenario_db_def)
  have ex: "get_exam scenario_restarted
              (se_exam_id \<lparr>se_id = 1, se_student_id = 7, se_exam_id = 1, se_status = in_progress\<rparr>) =
     Some \<lparr>e_id = 1, e_start_datetime = Some 0, e_end_datetime = Some 1000, e_max_questions = 2\<rparr>"
    by (simp add: get_exam_def scenario_restarted_eq scenario_db_def)
  have user: "se_student_id \<lparr>se_id = 1, se_student_id = 7, se_exam_id = 1, se_status = in_progress\<rparr> = 7"
    by simp
  have old: "length (exam_results scenario_restarted) = 1"
    by (simp add: scenario_restarted_eq scenario_db_def)
  from complete_student_exam_route_any_status[OF se ex user, of sequential_sum]
  have "snd (complete_student_exam_route sequential_sum scenario_restarted 7 1) =
          Inr \<lparr>se_id = 1, se_student_id = 7, se_exam_id = 1, se_status = completed\<rparr>"
   and "get_student_exam (fst (complete_student_exam_route sequential_sum scenario_restarted 7 1)) 1 =
          Some \<lparr>se_id = 1, se_student_id = 7, se_exam_id = 1, se_status = completed\<rparr>"
   and app: "exam_results (fst (complete_student_exam_route sequential_sum scenario_restarted 7 1)) =
          exam_results scenario_restarted @
          [last (exam_results (fst (complete_student_exam_route sequential_sum scenario_restarted 7 1)))]"
   and "er_student_exam_id
          (last (exam_results (fst (complete_student_exam_route sequential_sum scenario_restarted 7 1)))) = 1"
    by simp_all
  moreover have "length (exam_results (fst (complete_student_exam_route sequential_sum scenario_restarted 7 1))) = 2"
    using arg_cong[OF app, of length] old by simp
  ultimately show ?thesis using se ex by simp
qed

section \<open>Starting a session\<close>

text \<open>
  The database and the result of a start whose checks all pass and whose commit
  succeeds.
\<close>

lemma start_student_exam_unfold:
  assumes se: "get_student_exam d sid = Some se"
      and ex: "get_exam d (se_exam_id se) = Some ex"
      and started: "\<not> (case e_start_datetime ex of None \<Rightarrow> False | Some exam_start \<Rightarrow> t < exam_start)"
      and ended: "\<not> (case e_end_datetime ex of None \<Rightarrow> False | Some exam_end \<Rightarrow> exam_end < t)"
      and us: "active_subscription_query d (se_student_id se) t = Some us"
      and sub: "subscription_of d us = Inr (Some sub)"
      and left: "\<not> (case get_exam_attempt d (us_id us) (se_exam_id se) of
                      None \<Rightarrow> False | Some a \<Rightarrow> ea_remaining_attempts a \<le> 0)"
  shows "start_student_exam d t True sid =
           (d\<lparr>student_answers :=
                (if se_status se \<noteq> not_started
                 then filter (\<lambda>a. sa_student_exam_id a \<noteq> sid) (student_answers d)
                 else student_answers d),
              student_exams :=
                update_first (\<lambda>s. se_id s = sid) (\<lambda>s. s\<lparr>se_status := in_progress\<rparr>) (student_exams d),
              exam_attempts :=
                update_first
                  (\<lambda>a. ea_user_subscription_id a = us_id us \<and> ea_exam_id a = se_exam_id se)
                  (\<lambda>a. a\<lparr>ea_remaining_attempts := ea_remaining_attempts a - 1\<rparr>)
                  (case get_exam_attempt d (us_id us) (se_exam_id se) of
                     None \<Rightarrow> exam_attempts d @
                               [\<lparr>ea_user_subscription_id = us_id us, ea_exam_id = se_exam_id se,
                                 ea_remaining_attempts = max_exams_or_1 sub\<rparr>]
                   | Some a \<Rightarrow> exam_attempts d)\<rparr>,
            Inr (se\<lparr>se_status := in_progress\<rparr>))"
proof (cases "get_exam_attempt d (us_id us) (se_exam_id se)")
  case None
  then show ?thesis
    using started ended
    by (simp add: start_student_exam_def se ex us sub Let_def)
next
  case (Some a)
  then show ?thesis
    using started ended left
    by (simp add: start_student_exam_def se ex us sub Let_def)
qed

text \<open>A start either is rejected and changes nothing, or passed every check.\<close>

lemma start_student_exam_cases:
  obtains (rejected) e where "start_student_exam d t ok sid = (d, Inl e)"
  | (accepted) se ex us sub where
      "get_student_exam d sid = Some se"
      "get_exam d (se_exam_id se) = Some ex"
      "\<not> (case e_start_datetime ex of None \<Rightarrow> False | Some exam_start \<Rightarrow> t < exam_start)"
      "\<not> (case e_end_datetime ex of None \<Rightarrow> False | Some exam_end \<Rightarrow> exam_end < t)"
      "active_subscription_query d (se_student_id se) t = Some us"
      "subscription_of d us = Inr (Some sub)"
      "\<not> (case get_exam_attempt d (us_id us) (se_exam_id se) of
            None \<Rightarrow> False | Some a \<Rightarrow> ea_remaining_attempts a \<le> 0)"
      "ok"
proof (cases "get_student_exam d sid")
  case None
  then show ?thesis by (intro rejected) (simp add: start_student_exam_def)
next
  case se: (Some se)
  show ?thesis
  proof (cases "get_exam d (se_exam_id se)")
    case None
    then show ?thesis by (intro rejected) (simp add: start_student_exam_def se)
  next
    case ex: (Some ex)
    show ?thesis
    proof (cases "case e_start_datetime ex of None \<Rightarrow> False | Some exam_start \<Rightarrow> t < exam_start")
      case True
      then show ?thesis by (intro rejected) (simp add: start_student_exam_def se ex)
    next
      case started: False
      show ?thesis
      proof (cases "case e_end_datetime ex of None \<Rightarrow> False | Some exam_end \<Rightarrow> exam_end < t")
        case True
        then show ?thesis using started by (intro rejected) (simp add: start_student_exam_def se ex)
      next
        case ended: False
        show ?thesis
        proof (cases "active_subscription_query d (se_student_id se) t")
          case None
          then show ?thesis using started ended
            by (intro rejected) (simp add: start_student_exam_def se ex)
        next
          case us: (Some us)
          show ?thesis
          proof (cases "subscription_of d us")
            case (Inl e)
            then show ?thesis using started ended
              by (intro rejected) (simp add: start_student_exam_def se ex us)
          next
            case (Inr found)
            show ?thesis
            proof (cases found)
              case None
              then show ?thesis using started ended Inr
                by (intro rejected) (simp add: start_student_exam_def se ex us)
            next
              case (Some sub)
              with Inr have sub: "subscription_of d us = Inr (Some sub)" by simp
              show ?thesis
              proof (cases "case get_exam_attempt d (us_id us) (se_exam_id se) of
                              None \<Rightarrow> False | Some a \<Rightarrow> ea_remaining_attempts a \<le> 0")
                case True
                then show ?thesis using started ended
                  by (intro rejected) (simp add: start_student_exam_def se ex us sub Let_def)
              next
                case left: False
                show ?thesis
                proof (cases ok)
                  case True
                  with se ex started ended us sub left show ?thesis by (rule accepted)
                next
                  case False
                  then show ?thesis using started ended left
                    by (intro rejected) (simp add: start_student_exam_def se ex us sub Let_def)
                qed
              qed
            qed
          qed
        qed
      qed
    qed
  qed
qed

lemma start_student_exam_rejected_unchanged:
  assumes "snd (start_student_exam d t ok sid) = Inl e"
  shows "fst (start_student_exam d t ok sid) = d"
proof (cases rule: start_student_exam_cases[of d t ok sid])
  case (rejected e')
  then show ?thesis by simp
next
  case (accepted se ex us sub)
  then have "snd (start_student_exam d t ok sid) = Inr (se\<lparr>se_status := in_progress\<rparr>)"
    by (simp add: start_student_exam_unfold)
  with assms show ?thesis by simp
qed

lemma start_student_exam_results_unchanged:
  "exam_results (fst (start_student_exam d t ok sid)) = exam_results d"
proof (cases rule: start_student_exam_cases[of d t ok sid])
  case (rejected e')
  then show ?thesis by simp
next
  case (accepted se ex us sub)
  then show ?thesis by (simp add: start_student_exam_unfold)
qed

text \<open>
  C6. A successful start of a session whose status is not \<open>not_started\<close> (a retake)
  leaves no submitted answer of that session, keeps the submitted answers of every other
  session, and leaves the table of results as it was, so that the next completion
  continues the attempt numbers.
\<close>

theorem start_student_exam_retake_frame:
  assumes se: "get_student_exam d sid = Some se"
      and retake: "se_status se \<noteq> not_started"
      and ok: "snd (start_student_exam d t commit_ok sid) = Inr se'"
  shows "get_student_answers (fst (start_student_exam d t commit_ok sid)) sid = [] \<and>
         filter (\<lambda>a. sa_student_exam_id a \<noteq> sid)
           (student_answers (fst (start_student_exam d t commit_ok sid))) =
         filter (\<lambda>a. sa_student_exam_id a \<noteq> sid) (student_answers d) \<and>
         exam_results (fst (start_student_exam d t commit_ok sid)) = exam_results d"
proof (cases rule: start_student_exam_cases[of d t commit_ok sid])
  case (rejected e)
  with ok show ?thesis by simp
next
  case (accepted se0 ex us sub)
  from accepted(1) se have same: "se0 = se" by simp
  from accepted(8) have c: "commit_ok = True" by simp
  show ?thesis
    unfolding c
    using retake
    by (simp add: start_student_exam_unfold[OF accepted(1-7)] same get_student_answers_def)
qed

text \<open>
  The completed session of the example is started again: its two submitted answers are
  gone and its result row stays.
\<close>

theorem start_student_exam_retake_frame_witness:
  "get_student_exam scenario_completed 1 =
     Some \<lparr>se_id = 1, se_student_id = 7, se_exam_id = 1, se_status = completed\<rparr> \<and>
   snd (start_student_exam scenario_completed 30 True 1) =
     Inr \<lparr>se_id = 1, se_student_id = 7, se_exam_id = 1, se_status = in_progress\<rparr> \<and>
   length (get_student_answers scenario_completed 1) = 2 \<and>
   get_student_answers (fst (start_student_exam scenario_completed 30 True 1)) 1 = [] \<and>
   exam_results (fst (start_student_exam scenario_completed 30 True 1)) =
     [\<lparr>er_student_exam_id = 1, er_attempt_number = 1, er_total_questions = 2,
       er_correct_answers = 2, er_score_percentage = Finite 100, er_obtained_marks = Finite 100,
       er_max_marks = Finite 100, er_passed_status = True\<rparr>]"
proof -
  have se: "get_student_exam scenario_completed 1 =
     Some \<lparr>se_id = 1, se_student_id = 7, se_exam_id = 1, se_status = completed\<rparr>"
    by (simp add: get_student_exam_def scenario_completed_eq scenario_db_def)
  have retake: "se_status \<lparr>se_id = 1, se_student_id = 7, se_exam_id = 1, se_status = completed\<rparr>
                  \<noteq> not_started"
    by simp
  have ok: "snd (start_student_exam scenario_completed 30 True 1) =
     Inr \<lparr>se_id = 1, se_student_id = 7, se_exam_id = 1, se_status = in_progress\<rparr>"
    by (simp add: scenario_completed_eq scenario_db_def eval_defs)
  have before: "length (get_student_answers scenario_completed 1) = 2"
    by (simp add: get_student_answers_def scenario_completed_eq scenario_db_def)
  have results: "exam_results scenario_completed =
     [\<lparr>er_student_exam_id = 1, er_attempt_number = 1, er_total_questions = 2,
       er_correct_answers = 2, er_score_percentage = Finite 100, er_obtained_marks = Finite 100,
       er_max_marks = Finite 100, er_passed_status = True\<rparr>]"
    by (simp add: scenario_completed_eq scenario_db_def)
  from start_student_exam_retake_frame[OF se retake ok] se ok before results
  show ?thesis by simp
qed

section \<open>Rejected requests\<close>

text \<open>
  C4, where the code departs from the claim. \<open>create_student_exam\<close> commits the session
  row before it looks for the subscription: called when the student's subscription has
  ended (end date 1000, clock 1001) it raises "No active subscription found" and the
  session row stays. The create endpoint checks the subscription first, with its own
  reading of the clock; when the subscription ends between the two readings (1000 and
  1001) the request is answered with status 400 and that reason, and the session row
  stays as well, without a ledger row.
\<close>

theorem create_student_exam_rejected_keeps_session_row:
  "create_student_exam scenario_db 1001 scenario_request =
     (scenario_db\<lparr>student_exams :=
        [\<lparr>se_id = 1, se_student_id = 7, se_exam_id = 1, se_status = not_started\<rparr>]\<rparr>,
      Inl (ValueError NoActiveSubscription)) \<and>
   create_student_exam_route scenario_db 7 1000 1001 scenario_request =
     (scenario_db\<lparr>student_exams :=
        [\<lparr>se_id = 1, se_student_id = 7, se_exam_id = 1, se_status = not_started\<rparr>]\<rparr>,
      Inl (HTTPException 400 NoActiveSubscription)) \<and>
   student_exams scenario_db = []"
  by (simp add: scenario_db_def scenario_request_def eval_defs)

text \<open>
  The part of C4 that holds: a rejected start, at the endpoint as in
  \<open>start_student_exam\<close>, leaves the database as it was; so does a create request that the
  endpoint itself rejects.
\<close>

lemma start_student_exam_route_rejected_unchanged:
  assumes "snd (start_student_exam_route d current_user t ok sid) = Inl e"
  shows "fst (start_student_exam_route d current_user t ok sid) = d"
proof (cases "get_student_exam d sid")
  case None
  then show ?thesis by (simp add: start_student_exam_route_def)
next
  case (Some se)
  show ?thesis
  proof (cases "se_student_id se = current_user")
    case False
    then show ?thesis by (simp add: start_student_exam_route_def Some)
  next
    case True
    show ?thesis
    proof (cases rule: start_student_exam_cases[of d t ok sid])
      case (rejected e')
      then show ?thesis
        by (cases e') (simp_all add: start_student_exam_route_def Some True)
    next
      case (accepted se0 ex us sub)
      from accepted(8) have c: "ok = True" by simp
      have "snd (start_student_exam_route d current_user t ok sid) =
              Inr (se0\<lparr>se_status := in_progress\<rparr>)"
        unfolding c
        by (simp add: start_student_exam_route_def Some True
              start_student_exam_unfold[OF accepted(1-7)])
      with assms show ?thesis by simp
    qed
  qed
qed


section \<open>The scenario of the plan with two attempts\<close>

text \<open>
  C2, the claim as stated, fails in its last part: after create (through the endpoint),
  start, two correct answers and complete, a second start call on the session is
  accepted.
\<close>

theorem second_start_fails_counterexample:
  "snd (start_student_exam_route scenario_completed 7 30 True 1) =
     Inr \<lparr>se_id = 1, se_student_id = 7, se_exam_id = 1, se_status = in_progress\<rparr>"
  by (simp add: scenario_completed_eq scenario_db_def eval_defs)

text \<open>
  C2, amended. In the scenario the create endpoint leaves the ledger at 2, the first
  start takes it to 1, the completion records obtained marks 100, maximum marks 100,
  percentage 100, passed, attempt number 1; the second start is accepted and takes the
  ledger to 0; the third start is rejected for want of remaining attempts.
\<close>

theorem two_attempt_plan_scenario:
  "map ea_remaining_attempts (exam_attempts scenario_created) = [2] \<and>
   map ea_remaining_attempts (exam_attempts scenario_started) = [1] \<and>
   exam_results scenario_completed =
     [\<lparr>er_student_exam_id = 1, er_attempt_number = 1, er_total_questions = 2,
       er_correct_answers = 2, er_score_percentage = Finite 100, er_obtained_marks = Finite 100,
       er_max_marks = Finite 100, er_passed_status = True\<rparr>] \<and>
   snd (start_student_exam_route scenario_completed 7 30 True 1) =
     Inr \<lparr>se_id = 1, se_student_id = 7, se_exam_id = 1, se_status = in_progress\<rparr> \<and>
   map ea_remaining_attempts (exam_attempts scenario_restarted) = [0] \<and>
   start_student_exam_route scenario_restarted 7 40 True 1 =
     (scenario_restarted, Inl (HTTPException 400 NoRemainingAttempts))"
proof -
  have a: "map ea_remaining_attempts (exam_attempts scenario_created) = [2]"
    by (simp add: scenario_created_eq scenario_db_def)
  have b: "map ea_remaining_attempts (exam_attempts scenario_started) = [1]"
    by (simp add: scenario_started_eq scenario_db_def)
  have c: "exam_results scenario_completed =
     [\<lparr>er_student_exam_id = 1, er_attempt_number = 1, er_total_questions = 2,
       er_correct_answers = 2, er_score_percentage = Finite 100, er_obtained_marks = Finite 100,
       er_max_marks = Finite 100, er_passed_status = True\<rparr>]"
    by (simp add: scenario_completed_eq scenario_db_def)
  have d: "snd (start_student_exam_route scenario_completed 7 30 True 1) =
     Inr \<lparr>se_id = 1, se_student_id = 7, se_exam_id = 1, se_status = in_progress\<rparr>"
    by (simp add: scenario_completed_eq scenario_db_def eval_defs)
  have e: "map ea_remaining_attempts (exam_attempts scenario_restarted) = [0]"
    by (simp add: scenario_restarted_eq scenario_db_def)
  have f: "start_student_exam_route scenario_restarted 7 40 True 1 =
     (scenario_restarted, Inl (HTTPException 400 NoRemainingAttempts))"
    by (simp add: scenario_restarted_eq scenario_db_def eval_defs)
  from a b c d e f show ?thesis by simp
qed

text \<open>
  With the session created by \<open>create_student_exam\<close> alone, without the endpoint's call of
  \<open>create_or_update_exam_attempt\<close>, the ledger starts at 1 and the second start is
  rejected.
\<close>

lemma crud_only_second_start_rejected:
  "snd (start_student_exam
          (fst (start_student_exam (fst (create_student_exam scenario_db 10 scenario_request))
                  20 True 1))
          30 True 1) = Inl (ValueError NoRemainingAttempts)"
  by (simp add: scenario_db_def scenario_request_def eval_defs)

section \<open>Remaining attempts\<close>

text \<open>
  C9, where the code departs from the claim. For the subscription and the exam of the
  example there is no ledger row and the plan allows 2 attempts: \<open>get_remaining_attempts\<close>
  of the CRUD module returns 0, while the attempts endpoint returns 2.
\<close>

theorem get_remaining_attempts_without_ledger_row:
  "get_exam_attempt scenario_db 1 1 = None \<and>
   get_remaining_attempts scenario_db 1 1 = 0 \<and>
   get_remaining_attempts_route scenario_db 7 10 1 =
     Inr \<lparr>rar_remaining_attempts = 2, rar_max_attempts = 2, rar_exam_id = 1, rar_student_id = 7\<rparr>"
  by (simp add: scenario_db_def get_remaining_attempts_def get_remaining_attempts_route_def
        eval_defs)

text \<open>The parts of C9 that hold.\<close>

lemma get_remaining_attempts_stored:
  "get_exam_attempt d usid eid = Some a \<Longrightarrow>
     get_remaining_attempts d usid eid = ea_remaining_attempts a"
  by (simp add: get_remaining_attempts_def)

lemma get_remaining_attempts_route_value:
  assumes "active_subscription_query d u now = Some us"
      and "subscription_of d us = Inr (Some sub)"
  shows "map_sum id rar_remaining_attempts (get_remaining_attempts_route d u now eid) =
           Inr (case get_exam_attempt d (us_id us) eid of
                  None \<Rightarrow> max_exams_or_1 sub
                | Some a \<Rightarrow> ea_remaining_attempts a)"
  using assms by (simp add: get_remaining_attempts_route_def split: option.splits)

section \<open>Queries on tables an update leaves alone\<close>

lemma subscription_of_frame:
  "subscription_of (d\<lparr>student_exams := ses\<rparr>) us = subscription_of d us"
  "subscription_of (d\<lparr>student_answers := sas\<rparr>) us = subscription_of d us"
  "subscription_of (d\<lparr>exam_attempts := eas\<rparr>) us = subscription_of d us"
  by (simp_all add: subscription_of_def cong: option.case_cong)

lemma active_subscription_query_frame:
  "active_subscription_query (d\<lparr>student_exams := ses\<rparr>) u t = active_subscription_query d u t"
  "active_subscription_query (d\<lparr>student_answers := sas\<rparr>) u t = active_subscription_query d u t"
  "active_subscription_query (d\<lparr>exam_attempts := eas\<rparr>) u t = active_subscription_query d u t"
  by (simp_all add: active_subscription_query_def)

lemma get_exam_frame:
  "get_exam (d\<lparr>student_exams := ses\<rparr>) e = get_exam d e"
  "get_exam (d\<lparr>student_answers := sas\<rparr>) e = get_exam d e"
  "get_exam (d\<lparr>exam_attempts := eas\<rparr>) e = get_exam d e"
  by (simp_all add: get_exam_def)

lemma get_student_exam_frame:
  "get_student_exam (d\<lparr>student_answers := sas\<rparr>) s = get_student_exam d s"
  "get_student_exam (d\<lparr>exam_attempts := eas\<rparr>) s = get_student_exam d s"
  by (simp_all add: get_student_exam_def)

lemma get_exam_attempt_frame:
  "get_exam_attempt (d\<lparr>student_exams := ses\<rparr>) u e = get_exam_attempt d u e"
  "get_exam_attempt (d\<lparr>student_answers := sas\<rparr>) u e = get_exam_attempt d u e"
  by (simp_all add: get_exam_attempt_def)

lemmas frame = subscription_of_frame active_subscription_query_frame get_exam_frame
  get_student_exam_frame get_exam_attempt_frame











section \<open>Starts until the ledger is exhausted\<close>





section \<open>The attempts a fresh session is granted\<close>




section \<open>The expiry sweeper\<close>

lemma set_expired_nth:
  "j < length rows \<Longrightarrow>
     set_expired i rows ! j = (if j = i then (rows ! j)\<lparr>us_status := expired\<rparr> else rows ! j)"
  by (simp add: set_expired_def)

lemma length_set_expired: "length (set_expired i rows) = length rows"
  by (simp add: set_expired_def)

lemma length_fold_set_expired: "length (fold set_expired batch rows) = length rows"
  by (induction batch arbitrary: rows) (simp_all add: length_set_expired)

lemma fold_set_expired_nth:
  "j < length rows \<Longrightarrow>
     fold set_expired batch rows ! j =
       (if j \<in> set batch then (rows ! j)\<lparr>us_status := expired\<rparr> else rows ! j)"
proof (induction batch arbitrary: rows)
  case Nil
  show ?case by simp
next
  case (Cons i batch)
  from Cons.prems have "j < length (set_expired i rows)"
    by (simp add: length_set_expired)
  from Cons.IH[OF this] Cons.prems show ?case
    by (simp add: set_expired_nth)
qed

lemma set_take_drop:
  "x \<in> set (take n (drop i xs)) \<longleftrightarrow> (\<exists>k. i \<le> k \<and> k < i + n \<and> k < length xs \<and> xs ! k = x)"
proof
  assume "x \<in> set (take n (drop i xs))"
  then obtain m where m: "m < length (take n (drop i xs))" and x: "take n (drop i xs) ! m = x"
    by (auto simp: in_set_conv_nth)
  from m have mn: "m < n" by simp
  from m have "m < length xs - i" by simp
  then have im: "i + m < length xs" by linarith
  from mn im x have "xs ! (i + m) = x" by simp
  with mn im show "\<exists>k. i \<le> k \<and> k < i + n \<and> k < length xs \<and> xs ! k = x"
    by (intro exI[of _ "i + m"]) simp
next
  assume "\<exists>k. i \<le> k \<and> k < i + n \<and> k < length xs \<and> xs ! k = x"
  then obtain k where k: "i \<le> k" "k < i + n" "k < length xs" "xs ! k = x" by blast
  from k have "k - i < length xs - i" "k - i < n" by arith+
  then have "k - i < length (take n (drop i xs))" by simp
  moreover have "take n (drop i xs) ! (k - i) = x" using k by simp
  ultimately show "x \<in> set (take n (drop i xs))"
    by (auto simp: in_set_conv_nth)
qed

text \<open>
  The table after the loop has run from the batch that begins at position \<open>i\<close>: a row is
  expired when it is in a batch from there on whose commit succeeded, and as before
  otherwise.
\<close>

lemma sweep_batches_nth:
  assumes "batch_size dvd i" and "j < length rows"
  shows "length (fst (sweep_batches commit_fails expired_rows i (rows, count))) = length rows \<and>
         fst (sweep_batches commit_fails expired_rows i (rows, count)) ! j =
           (if \<exists>k. i \<le> k \<and> k < length expired_rows \<and> expired_rows ! k = j \<and>
                    \<not> commit_fails (k div batch_size)
            then (rows ! j)\<lparr>us_status := expired\<rparr> else rows ! j)"
  using assms
proof (induction commit_fails expired_rows i "(rows, count)" arbitrary: rows count
        rule: sweep_batches.induct)
  case (1 commit_fails expired_rows i rows count)
  show ?case
  proof (cases "i < length expired_rows")
    case False
    then show ?thesis by (auto simp: sweep_batches.simps[of _ _ i])
  next
    case True
    let ?batch = "take batch_size (drop i expired_rows)"
    let ?pending = "fold set_expired ?batch rows"
    let ?next = "if commit_fails (i div batch_size) then rows else ?pending"
    have step: "sweep_batches commit_fails expired_rows i (rows, count) =
                  sweep_batches commit_fails expired_rows (i + batch_size)
                    (?next, count + length ?batch)"
      using True by (simp add: sweep_batches.simps[of _ _ i] Let_def)
    have dvd': "batch_size dvd i + batch_size" using "1.prems"(1) by simp
    have len: "length ?next = length rows" by (simp add: length_fold_set_expired)
    then have j': "j < length ?next" using "1.prems"(2) by simp
    have IH: "length (fst (sweep_batches commit_fails expired_rows (i + batch_size)
                             (?next, count + length ?batch))) = length ?next \<and>
              fst (sweep_batches commit_fails expired_rows (i + batch_size)
                     (?next, count + length ?batch)) ! j =
                (if \<exists>k. i + batch_size \<le> k \<and> k < length expired_rows \<and> expired_rows ! k = j \<and>
                         \<not> commit_fails (k div batch_size)
                 then (?next ! j)\<lparr>us_status := expired\<rparr> else ?next ! j)"
      by (rule "1.hyps"[OF True refl refl refl dvd' j'])
    have in_batch: "k div batch_size = i div batch_size"
      if "i \<le> k" "k < i + batch_size" for k
    proof -
      from "1.prems"(1) obtain q where q: "i = batch_size * q" by (auto simp: dvd_def)
      have pos: "0 < batch_size" by (simp add: batch_size_def)
      from that q have "batch_size * q \<le> k" "k < batch_size * Suc q" by simp_all
      then have "k div batch_size = q"
        by (rule div_nat_eqI)
      moreover have "i div batch_size = q" using q pos by simp
      ultimately show ?thesis by simp
    qed
    have batch: "j \<in> set ?batch \<longleftrightarrow>
                   (\<exists>k. i \<le> k \<and> k < i + batch_size \<and> k < length expired_rows \<and> expired_rows ! k = j)"
      by (auto simp: set_take_drop)
    have next_j: "?next ! j =
                    (if \<not> commit_fails (i div batch_size) \<and> j \<in> set ?batch
                     then (rows ! j)\<lparr>us_status := expired\<rparr> else rows ! j)"
      using "1.prems"(2) by (simp add: fold_set_expired_nth)
    have split: "(\<exists>k. i \<le> k \<and> k < length expired_rows \<and> expired_rows ! k = j \<and>
                     \<not> commit_fails (k div batch_size)) \<longleftrightarrow>
                 (\<not> commit_fails (i div batch_size) \<and> j \<in> set ?batch) \<or>
                 (\<exists>k. i + batch_size \<le> k \<and> k < length expired_rows \<and> expired_rows ! k = j \<and>
                     \<not> commit_fails (k div batch_size))"
      (is "?L \<longleftrightarrow> ?A \<or> ?B")
    proof
      assume ?L
      then obtain k where k: "i \<le> k" "k < length expired_rows" "expired_rows ! k = j"
                             "\<not> commit_fails (k div batch_size)" by blast
      show "?A \<or> ?B"
      proof (cases "k < i + batch_size")
        case True
        with k in_batch[of k] batch show ?thesis by auto
      next
        case False
        with k show ?thesis by auto
      qed
    next
      assume "?A \<or> ?B"
      then show ?L
      proof
        assume a: ?A
        with batch obtain k where "i \<le> k" "k < i + batch_size" "k < length expired_rows"
                                  "expired_rows ! k = j" by blast
        with a in_batch[of k] show ?L by auto
      next
        assume ?B
        then obtain k where "i + batch_size \<le> k" "k < length expired_rows" "expired_rows ! k = j"
                            "\<not> commit_fails (k div batch_size)" by blast
        then show ?L by (intro exI[of _ k]) simp
      qed
    qed
    show ?thesis
      unfolding step using IH len by (simp only: next_j split) auto
  qed
qed

lemma sweep_batches_count:
  "snd (sweep_batches commit_fails expired_rows i (rows, count)) =
     count + (length expired_rows - i)"
proof (induction commit_fails expired_rows i "(rows, count)" arbitrary: rows count
        rule: sweep_batches.induct)
  case (1 commit_fails expired_rows i rows count)
  show ?case
  proof (cases "i < length expired_rows")
    case False
    then show ?thesis by (simp add: sweep_batches.simps[of _ _ i])
  next
    case True
    have "snd (sweep_batches commit_fails expired_rows i (rows, count)) =
            snd (sweep_batches commit_fails expired_rows (i + batch_size)
                   (if commit_fails (i div batch_size) then rows
                    else fold set_expired (take batch_size (drop i expired_rows)) rows,
                    count + length (take batch_size (drop i expired_rows))))"
      using True by (simp add: sweep_batches.simps[of _ _ i] Let_def)
    also have "\<dots> = count + length (take batch_size (drop i expired_rows)) +
                      (length expired_rows - (i + batch_size))"
      by (rule "1.hyps"[OF True refl refl refl])
    also have "\<dots> = count + (length expired_rows - i)"
      using True by (simp add: min_def)
    finally show ?thesis .
  qed
qed

lemma expired_subscriptions_set:
  "j \<in> set (expired_subscriptions rows now) \<longleftrightarrow>
     j < length rows \<and> us_status (rows ! j) = active \<and> us_end_date (rows ! j) < now"
  by (auto simp: expired_subscriptions_def)

lemma expired_subscriptions_distinct: "distinct (expired_subscriptions rows now)"
  by (simp add: expired_subscriptions_def)

lemma update_expired_subscriptions_unfold:
  "update_expired_subscriptions commit_fails d now =
     (d\<lparr>user_subscriptions :=
          fst (sweep_batches commit_fails (expired_subscriptions (user_subscriptions d) now) 0
                 (user_subscriptions d, 0))\<rparr>,
      length (expired_subscriptions (user_subscriptions d) now))"
proof (cases "expired_subscriptions (user_subscriptions d) now = []")
  case True
  then show ?thesis
    by (simp add: update_expired_subscriptions_def sweep_batches.simps[of _ _ 0])
next
  case False
  obtain rows count where sw:
    "sweep_batches commit_fails (expired_subscriptions (user_subscriptions d) now) 0
       (user_subscriptions d, 0) = (rows, count)"
    by (cases "sweep_batches commit_fails (expired_subscriptions (user_subscriptions d) now) 0
                 (user_subscriptions d, 0)")
  have "count = length (expired_subscriptions (user_subscriptions d) now)"
    using sweep_batches_count[of commit_fails "expired_subscriptions (user_subscriptions d) now"
            0 "user_subscriptions d" 0] sw
    by simp
  then show ?thesis
    using False sw by (simp add: update_expired_subscriptions_def Let_def)
qed


text \<open>
  C10. One run of the sweeper over the table \<open>rows\<close> at the time \<open>now\<close>. The rows it
  selects are the active ones whose end date is before \<open>now\<close>, taken in batches of
  \<open>batch_size = 100\<close>. The \<open>k\<close>-th selected row ends expired when the commit of its
  batch, number \<open>k div 100\<close>, succeeds, and as it was when that commit fails, whatever
  happens to the other batches; the rows not selected stay as they were; when no commit
  fails every selected row ends expired. The run counts every selected row.
\<close>

theorem update_expired_subscriptions_batches:
  "let rows = user_subscriptions d;
       selected = expired_subscriptions rows now;
       swept = update_expired_subscriptions commit_fails d now
   in fst swept = d\<lparr>user_subscriptions := user_subscriptions (fst swept)\<rparr> \<and>
      length (user_subscriptions (fst swept)) = length rows \<and>
      (\<forall>j < length rows.
         j \<in> set selected \<longleftrightarrow> us_status (rows ! j) = active \<and> us_end_date (rows ! j) < now) \<and>
      (\<forall>k < length selected.
         user_subscriptions (fst swept) ! (selected ! k) =
           (if commit_fails (k div batch_size) then rows ! (selected ! k)
            else (rows ! (selected ! k))\<lparr>us_status := expired\<rparr>)) \<and>
      (\<forall>j < length rows. j \<notin> set selected \<longrightarrow> user_subscriptions (fst swept) ! j = rows ! j) \<and>
      ((\<forall>k. \<not> commit_fails k) \<longrightarrow>
         user_subscriptions (fst swept) =
           map (\<lambda>r. if us_status r = active \<and> us_end_date r < now
                     then r\<lparr>us_status := expired\<rparr> else r) rows) \<and>
      snd swept = length selected"
proof -
  let ?rows = "user_subscriptions d"
  let ?sel = "expired_subscriptions ?rows now"
  let ?swept = "update_expired_subscriptions commit_fails d now"
  let ?out = "user_subscriptions (fst ?swept)"
  note unfold = update_expired_subscriptions_unfold[of commit_fails d now]
  have out: "?out = fst (sweep_batches commit_fails ?sel 0 (?rows, 0))"
    by (simp add: unfold)
  have frame: "fst ?swept = d\<lparr>user_subscriptions := ?out\<rparr>"
    by (simp add: unfold)
  have count: "snd ?swept = length ?sel"
    by (simp add: unfold)
  have nth: "length ?out = length ?rows \<and>
             ?out ! j = (if \<exists>k. 0 \<le> k \<and> k < length ?sel \<and> ?sel ! k = j \<and>
                                 \<not> commit_fails (k div batch_size)
                         then (?rows ! j)\<lparr>us_status := expired\<rparr> else ?rows ! j)"
    if "j < length ?rows" for j
    unfolding out by (rule sweep_batches_nth) (use that in simp_all)
  have len: "length ?out = length ?rows"
  proof (cases "?rows = []")
    case True
    then show ?thesis
      by (simp add: out expired_subscriptions_def sweep_batches.simps[of _ _ 0])
  next
    case False
    then have "0 < length ?rows" by simp
    from nth[OF this] show ?thesis by simp
  qed
  have sel: "\<forall>j < length ?rows.
               j \<in> set ?sel \<longleftrightarrow> us_status (?rows ! j) = active \<and> us_end_date (?rows ! j) < now"
    by (simp add: expired_subscriptions_set)
  have batch: "\<forall>k < length ?sel.
         ?out ! (?sel ! k) =
           (if commit_fails (k div batch_size) then ?rows ! (?sel ! k)
            else (?rows ! (?sel ! k))\<lparr>us_status := expired\<rparr>)"
  proof (intro allI impI)
    fix k assume k: "k < length ?sel"
    then have "?sel ! k \<in> set ?sel" by simp
    then have j: "?sel ! k < length ?rows" by (simp add: expired_subscriptions_set)
    have "(\<exists>k'. 0 \<le> k' \<and> k' < length ?sel \<and> ?sel ! k' = ?sel ! k \<and>
                 \<not> commit_fails (k' div batch_size)) \<longleftrightarrow> \<not> commit_fails (k div batch_size)"
      using k expired_subscriptions_distinct[of ?rows now]
      by (auto simp: nth_eq_iff_index_eq)
    with nth[OF j] show "?out ! (?sel ! k) =
           (if commit_fails (k div batch_size) then ?rows ! (?sel ! k)
            else (?rows ! (?sel ! k))\<lparr>us_status := expired\<rparr>)"
      by simp
  qed
  have others: "\<forall>j < length ?rows. j \<notin> set ?sel \<longrightarrow> ?out ! j = ?rows ! j"
  proof (intro allI impI)
    fix j assume j: "j < length ?rows" and "j \<notin> set ?sel"
    then have "\<not> (\<exists>k. 0 \<le> k \<and> k < length ?sel \<and> ?sel ! k = j \<and>
                      \<not> commit_fails (k div batch_size))"
      by auto
    with nth[OF j] show "?out ! j = ?rows ! j" by auto
  qed
  have all: "(\<forall>k. \<not> commit_fails k) \<longrightarrow>
             ?out = map (\<lambda>r. if us_status r = active \<and> us_end_date r < now
                              then r\<lparr>us_status := expired\<rparr> else r) ?rows"
  proof (intro impI nth_equalityI)
    assume ok: "\<forall>k. \<not> commit_fails k"
    show "length ?out = length (map (\<lambda>r. if us_status r = active \<and> us_end_date r < now
                              then r\<lparr>us_status := expired\<rparr> else r) ?rows)"
      using len by simp
  next
    fix j assume ok: "\<forall>k. \<not> commit_fails k" and "j < length ?out"
    then have j: "j < length ?rows" using len by simp
    show "?out ! j = map (\<lambda>r. if us_status r = active \<and> us_end_date r < now
                              then r\<lparr>us_status := expired\<rparr> else r) ?rows ! j"
    proof (cases "j \<in> set ?sel")
      case True
      then obtain k where k: "k < length ?sel" "?sel ! k = j"
        by (auto simp: in_set_conv_nth)
      from True j have "us_status (?rows ! j) = active \<and> us_end_date (?rows ! j) < now"
        by (simp add: expired_subscriptions_set)
      moreover from batch k ok have "?out ! j = (?rows ! j)\<lparr>us_status := expired\<rparr>"
        by auto
      ultimately show ?thesis using j by simp
    next
      case False
      with j have "\<not> (us_status (?rows ! j) = active \<and> us_end_date (?rows ! j) < now)"
        by (simp add: expired_subscriptions_set)
      moreover from others j False have "?out ! j = ?rows ! j" by simp
      ultimately show ?thesis using j by simp
    qed
  qed
  show ?thesis
    unfolding Let_def by (intro conjI frame len sel batch others all count)
qed

text \<open>
  The example of the claim: 150 selected rows, the commit of the second batch fails. The
  100 rows of the first batch (positions 0 to 99) end expired, the 50 rows of the second
  batch stay active, and the run counts 150.
\<close>

theorem update_expired_subscriptions_batches_witness:
  "expired_subscriptions (user_subscriptions sweeper_db) 1 = [0..<150] \<and>
   us_status (user_subscriptions (fst (update_expired_subscriptions (\<lambda>k. k = 1) sweeper_db 1)) ! 0)
     = expired \<and>
   us_status (user_subscriptions (fst (update_expired_subscriptions (\<lambda>k. k = 1) sweeper_db 1)) ! 99)
     = expired \<and>
   us_status (user_subscriptions (fst (update_expired_subscriptions (\<lambda>k. k = 1) sweeper_db 1)) ! 100)
     = active \<and>
   us_status (user_subscriptions (fst (update_expired_subscriptions (\<lambda>k. k = 1) sweeper_db 1)) ! 149)
     = active \<and>
   snd (update_expired_subscriptions (\<lambda>k. k = 1) sweeper_db 1) = 150"
proof -
  let ?f = "\<lambda>i. \<lparr>us_id = int i + 1, us_user_id = int i + 1,
                   us_subscription_plan_packages_id = 1, us_end_date = 0, us_status = active\<rparr>"
  let ?out = "user_subscriptions (fst (update_expired_subscriptions (\<lambda>k. k = 1) sweeper_db 1))"
  have rows: "user_subscriptions sweeper_db = map ?f [0..<150]"
    by (simp add: sweeper_db_def)
  have row: "user_subscriptions sweeper_db ! i = ?f i" if "i < 150" for i
    using that by (simp add: rows del: upt_Suc)
  have sel: "expired_subscriptions (user_subscriptions sweeper_db) 1 = [0..<150]"
  proof -
    have "filter (\<lambda>i. us_status (map ?f [0..<150] ! i) = active \<and>
                       us_end_date (map ?f [0..<150] ! i) < 1) [0..<150] = [0..<150]"
      by (simp add: filter_id_conv del: upt_Suc)
    then show ?thesis
      by (simp add: expired_subscriptions_def rows del: upt_Suc)
  qed
  have nth_sel: "[0..<150] ! k = k" if "k < 150" for k :: nat
    using that by (simp del: upt_Suc)
  from update_expired_subscriptions_batches[of sweeper_db 1 "\<lambda>k. k = 1"]
  have batch: "\<forall>k < 150.
         ?out ! k =
           (if k div batch_size = 1 then user_subscriptions sweeper_db ! k
            else (user_subscriptions sweeper_db ! k)\<lparr>us_status := expired\<rparr>)"
   and count: "snd (update_expired_subscriptions (\<lambda>k. k = 1) sweeper_db 1) = 150"
    by (simp_all add: Let_def sel nth_sel del: upt_Suc)
  have r0: "us_status (?out ! 0) = expired"
    using batch[rule_format, of 0] by (simp add: batch_size_def row)
  have r99: "us_status (?out ! 99) = expired"
    using batch[rule_format, of 99] by (simp add: batch_size_def row)
  have r100: "us_status (?out ! 100) = active"
    using batch[rule_format, of 100] by (simp add: batch_size_def row)
  have r149: "us_status (?out ! 149) = active"
    using batch[rule_format, of 149] by (simp add: batch_size_def row)
  from sel r0 r99 r100 r149 count show ?thesis by simp
qed

end
